theory Spec2Isabelle
  imports Main "HOL-Library.Char_ord" "HOL-Library.List_Lexorder" "HOL-Library.AList"
begin

section \<open>Python values\<close>

text \<open>
  A Python \<open>str\<close> is a \<^typ>\<open>string\<close>: a list of characters with code points
  0..255. Python exceptions are values of \<open>exn\<close>; a function that can raise returns
  \<open>exn + 'a\<close>, with \<open>Inl\<close> the exception that leaves the function.
\<close>

datatype exn =
    ValueError string
  | KeyError string
  | IndexError
  | TypeError
  | AttributeError
  | BackendError

text \<open>
  \<open>str.isspace\<close> on code points below 256, which is also what \<open>\s\<close> matches in a
  \<open>str\<close> pattern of \<open>re\<close> and what \<open>str.strip()\<close> removes.
\<close>

definition is_space :: "char \<Rightarrow> bool" where
  "is_space c = (c \<in> set [CHR 0x09, CHR 0x0A, CHR 0x0B, CHR 0x0C, CHR 0x0D,
                            CHR 0x1C, CHR 0x1D, CHR 0x1E, CHR 0x1F, CHR 0x20,
                            CHR 0x85, CHR 0xA0])"

definition is_digit :: "char \<Rightarrow> bool" where
  "is_digit c = (c \<in> set ''0123456789'')"

definition digit_val :: "char \<Rightarrow> int" where
  "digit_val c = of_char c - 48"

text \<open>\<open>int(s)\<close> for a string of ASCII digits.\<close>

definition int_of_digits :: "string \<Rightarrow> int" where
  "int_of_digits s = foldl (\<lambda>a c. 10 * a + digit_val c) 0 s"

text \<open>\<open>str(i)\<close> for an \<open>int\<close>, which is also how an f-string renders it.\<close>

definition digit_char :: "nat \<Rightarrow> char" where
  "digit_char d = (''0123456789'' ! d)"

fun digits_of_nat :: "nat \<Rightarrow> string" where
  "digits_of_nat n =
     (if n < 10 then [digit_char n] else digits_of_nat (n div 10) @ [digit_char (n mod 10)])"

declare digits_of_nat.simps [simp del]

definition str_int :: "int \<Rightarrow> string" where
  "str_int i = (if i < 0 then CHR ''-'' # digits_of_nat (nat (- i)) else digits_of_nat (nat i))"

text \<open>
  \<open>int(s)\<close> for a \<open>str\<close>: surrounding whitespace is dropped, a sign may lead, and the
  digits may be grouped by single underscores. \<open>None\<close> stands for the \<open>ValueError\<close>.
\<close>

definition strip_space :: "string \<Rightarrow> string" where
  "strip_space s = rev (dropWhile is_space (rev (dropWhile is_space s)))"

fun double_underscore :: "string \<Rightarrow> bool" where
  "double_underscore (a # b # cs) = ((a = CHR ''_'' \<and> b = CHR ''_'') \<or> double_underscore (b # cs))"
| "double_underscore _ = False"

definition int_literal_ok :: "string \<Rightarrow> bool" where
  "int_literal_ok s =
     (s \<noteq> [] \<and> is_digit (hd s) \<and> is_digit (last s)
      \<and> list_all (\<lambda>c. is_digit c \<or> c = CHR ''_'') s \<and> \<not> double_underscore s)"

definition py_int :: "string \<Rightarrow> int option" where
  "py_int s =
     (let t = strip_space s;
          neg = (t \<noteq> [] \<and> hd t = CHR ''-'');
          body = (if t \<noteq> [] \<and> (hd t = CHR ''-'' \<or> hd t = CHR ''+'') then tl t else t)
      in if int_literal_ok body
         then Some ((if neg then - 1 else 1) * int_of_digits (filter (\<lambda>c. c \<noteq> CHR ''_'') body))
         else None)"

text \<open>\<open>xs[i]\<close> for \<open>i \<ge> 0\<close>: \<open>IndexError\<close> past the end.\<close>

definition py_nth :: "'a list \<Rightarrow> nat \<Rightarrow> exn + 'a" where
  "py_nth xs i = (if i < length xs then Inr (xs ! i) else Inl IndexError)"

text \<open>Sequencing of calls that can raise: the first exception leaves the block.\<close>

definition bind_exn :: "exn + 'a \<Rightarrow> ('a \<Rightarrow> exn + 'b) \<Rightarrow> exn + 'b" where
  "bind_exn r f = (case r of Inl e \<Rightarrow> Inl e | Inr x \<Rightarrow> f x)"

text \<open>\<open>s.split(c)\<close> for a one-character separator: a list of at least one field.\<close>

fun split_char :: "char \<Rightarrow> string \<Rightarrow> string list" where
  "split_char c [] = [[]]"
| "split_char c (x # xs) =
     (if x = c then [] # split_char c xs
      else (case split_char c xs of
              [] \<Rightarrow> [[x]]
            | w # ws \<Rightarrow> (x # w) # ws))"

text \<open>\<open>s.split(sep)[0]\<close>: the text before the first occurrence of \<open>sep\<close>.\<close>

fun before_sep :: "string \<Rightarrow> string \<Rightarrow> string" where
  "before_sep sep [] = []"
| "before_sep sep (c # cs) =
     (if take (length sep) (c # cs) = sep then [] else c # before_sep sep cs)"

text \<open>\<open>s.replace("chr", "")\<close>: every occurrence, left to right, without overlap.\<close>

fun remove_chr :: "string \<Rightarrow> string" where
  "remove_chr [] = []"
| "remove_chr (c # cs) =
     (if take 3 (c # cs) = ''chr'' then remove_chr (drop 2 cs) else c # remove_chr cs)"

text \<open>\<open>sep.join(xs)\<close>.\<close>

fun join :: "string \<Rightarrow> string list \<Rightarrow> string" where
  "join sep [] = []"
| "join sep [x] = x"
| "join sep (x # y # ys) = x @ sep @ join sep (y # ys)"

text \<open>\<open>s[s.index(c)+1:]\<close>: the text after the first \<open>c\<close>; \<open>ValueError\<close> without one.\<close>

definition after_first :: "char \<Rightarrow> string \<Rightarrow> exn + string" where
  "after_first c s =
     (if c \<in> set s then Inr (tl (dropWhile (\<lambda>x. x \<noteq> c) s))
      else Inl (ValueError ''substring not found''))"

text \<open>\<open>s.strip(chars)\<close> for a one-character set.\<close>

definition strip_char :: "char \<Rightarrow> string \<Rightarrow> string" where
  "strip_char c s = rev (dropWhile (\<lambda>x. x = c) (rev (dropWhile (\<lambda>x. x = c) s)))"

subsection \<open>JSON values and dicts\<close>

text \<open>
  The dicts of the program hold what \<open>json.dumps\<close> can write. A dict is an association
  list in insertion order with one entry per key: \<open>d[k] = v\<close> is \<open>AList.update\<close>, which
  replaces the value of a key in place and puts a new key last.
\<close>

datatype json =
    JNull
  | JBool bool
  | JInt int
  | JStr string
  | JList "json list"
  | JDict "(string \<times> json) list"

type_synonym dict = "(string \<times> json) list"

definition dict_update :: "dict \<Rightarrow> dict \<Rightarrow> dict" where
  "dict_update d other = foldl (\<lambda>acc (k, v). AList.update k v acc) d other"

definition dict_item :: "dict \<Rightarrow> string \<Rightarrow> exn + json" where
  "dict_item d k = (case map_of d k of None \<Rightarrow> Inl (KeyError k) | Some v \<Rightarrow> Inr v)"

text \<open>Truth value of an object in a condition.\<close>

fun truthy :: "json \<Rightarrow> bool" where
  "truthy JNull = False"
| "truthy (JBool b) = b"
| "truthy (JInt i) = (i \<noteq> 0)"
| "truthy (JStr s) = (s \<noteq> [])"
| "truthy (JList xs) = (xs \<noteq> [])"
| "truthy (JDict d) = (d \<noteq> [])"

section \<open>The variant parser\<close>

text \<open>
  \<^verbatim>\<open>
  VARIANT_RE = re.compile(
      "(chr)?(?P<chrom>[0-9XYMTt]{1,2})"
      "[-\s:]+"
      "(?P<pos>[0-9]{1,9})"
      "[-\s:]+"
      "(?P<ref>[ACGT]+)"
      "[-\s:>]+"
      "(?P<alt>[ACGT]+)"
  )
  \<close>
  The character classes of the pattern.
\<close>

definition chrom_class :: "char \<Rightarrow> bool" where
  "chrom_class c = (c \<in> set ''0123456789XYMTt'')"

definition sep_class :: "char \<Rightarrow> bool" where
  "sep_class c = (c = CHR ''-'' \<or> is_space c \<or> c = CHR '':'')"

definition sep_gt_class :: "char \<Rightarrow> bool" where
  "sep_gt_class c = (c = CHR ''-'' \<or> is_space c \<or> c = CHR '':'' \<or> c = CHR ''>'')"

definition base_class :: "char \<Rightarrow> bool" where
  "base_class c = (c \<in> set ''ACGT'')"

text \<open>
  The pattern after the optional \<open>(chr)?\<close>. Every quantifier is greedy and each class is
  disjoint from the class that follows it, so giving a character back never helps: a
  group is the longest run of its class (at most two characters for \<open>chrom\<close>), and
  the match fails when a run is empty or when \<open>pos\<close> has more than nine digits (the
  tenth digit is not a separator). Nothing follows \<open>alt\<close>, and \<open>match\<close> does not
  anchor at the end of the string, so whatever comes after \<open>alt\<close> is ignored.
  The result is the groups (chrom, pos, ref, alt).
\<close>

definition match_from_chrom :: "string \<Rightarrow> (string \<times> string \<times> string \<times> string) option" where
  "match_from_chrom s =
     (let chrom = takeWhile chrom_class (take 2 s);
          s1 = drop (length chrom) s;
          sep1 = takeWhile sep_class s1;
          s2 = dropWhile sep_class s1;
          pos = takeWhile is_digit s2;
          s3 = dropWhile is_digit s2;
          sep2 = takeWhile sep_class s3;
          s4 = dropWhile sep_class s3;
          ref = takeWhile base_class s4;
          s5 = dropWhile base_class s4;
          sep3 = takeWhile sep_gt_class s5;
          s6 = dropWhile sep_gt_class s5;
          alt = takeWhile base_class s6
      in if chrom \<noteq> [] \<and> sep1 \<noteq> [] \<and> pos \<noteq> [] \<and> length pos \<le> 9 \<and> sep2 \<noteq> []
            \<and> ref \<noteq> [] \<and> sep3 \<noteq> [] \<and> alt \<noteq> []
         then Some (chrom, pos, ref, alt) else None)"

text \<open>
  \<open>VARIANT_RE.match\<close>: the match starts at the first character. \<open>(chr)?\<close> first takes
  a leading \<open>chr\<close>; when the rest of the pattern fails after it, the matcher backtracks and
  tries the rest of the pattern at the first character.
\<close>

definition VARIANT_RE_match :: "string \<Rightarrow> (string \<times> string \<times> string \<times> string) option" where
  "VARIANT_RE_match s =
     (if take 3 s = ''chr''
      then (case match_from_chrom (drop 3 s) of
              Some m \<Rightarrow> Some m
            | None \<Rightarrow> match_from_chrom s)
      else match_from_chrom s)"

text \<open>
  \<^verbatim>\<open>
  def parse_variant(variant_str):
      match = VARIANT_RE.match(variant_str)
      if not match:
          raise ValueError(f"Unable to parse variant: {variant_str}")
      return match['chrom'], int(match['pos']), match['ref'], match['alt']
  \<close>
\<close>

definition parse_variant :: "string \<Rightarrow> exn + (string \<times> int \<times> string \<times> string)" where
  "parse_variant variant_str =
     (case VARIANT_RE_match variant_str of
        None \<Rightarrow> Inl (ValueError (''Unable to parse variant: '' @ variant_str))
      | Some (chrom, pos, ref, alt) \<Rightarrow> Inr (chrom, int_of_digits pos, ref, alt))"

section \<open>The shared cache backend and the trace of external calls\<close>

text \<open>
  \<open>REDIS\<close> is a key-value server outside the process. Its content is an association
  list from keys to a value and the key's time to live in seconds (\<open>None\<close>: no expiry);
  values are kept decoded, since every value the program writes is JSON text. A key whose
  time to live has run out is gone from the list: expiry happens between the calls, inside
  the server.

  Every call the program makes on an external collaborator (the backend, a precomputed
  score file, the scoring model, the liftOver command) is appended to \<open>calls\<close>, whether it
  succeeds or raises. \<open>backend_down n\<close> says that the backend does not answer when the
  call number \<open>n\<close> of the trace is made on it: that call raises, and leaves the content
  unchanged.
\<close>

type_synonym cache_key = "string option \<times> string \<times> string option"

datatype call =
    RedisGet string
  | RedisKeys string
  | RedisSet string json
  | RedisExpire string nat
  | TabixFetch cache_key string int int
  | GetDeltaScores "string \<times> int \<times> string \<times> string" string int int
  | LiftOver string string

record world =
  redis :: "(string \<times> json \<times> nat option) list"
  backend_down :: "nat \<Rightarrow> bool"
  calls :: "call list"

definition raises :: "world \<Rightarrow> bool" where
  "raises w = backend_down w (length (calls w))"

definition called :: "call \<Rightarrow> world \<Rightarrow> world" where
  "called c w = w\<lparr>calls := calls w @ [c]\<rparr>"

text \<open>
  The calls made between two states of the world; a step that only adds calls of one
  kind to the trace; the calls of the rate limiter; the calls that write a result into
  the cache (a \<open>set\<close> of a dict: a marker of the rate limiter is the number 1); the
  reads of a precomputed file; the calls of the model.
\<close>

definition new_calls :: "world \<Rightarrow> world \<Rightarrow> call list" where
  "new_calls w w' = drop (length (calls w)) (calls w')"

definition only_calls :: "(call \<Rightarrow> bool) \<Rightarrow> world \<Rightarrow> world \<Rightarrow> bool" where
  "only_calls P w w' = (take (length (calls w)) (calls w') = calls w \<and> list_all P (new_calls w w'))"

fun is_limiter_call :: "call \<Rightarrow> bool" where
  "is_limiter_call (RedisKeys pattern) = True"
| "is_limiter_call (RedisSet key (JInt i)) = True"
| "is_limiter_call (RedisExpire key seconds) = True"
| "is_limiter_call _ = False"

fun is_cache_store :: "call \<Rightarrow> bool" where
  "is_cache_store (RedisSet key (JDict d)) = True"
| "is_cache_store _ = False"


fun is_computation :: "call \<Rightarrow> bool" where
  "is_computation (GetDeltaScores v genome_version d m) = True"
| "is_computation _ = False"

text \<open>\<open>REDIS.get(key)\<close>: the value, or \<open>None\<close> for a key that is not there.\<close>

definition redis_get :: "string \<Rightarrow> world \<Rightarrow> (exn + json option) \<times> world" where
  "redis_get key w =
     (if raises w then (Inl BackendError, called (RedisGet key) w)
      else (Inr (map_option fst (map_of (redis w) key)), called (RedisGet key) w))"

text \<open>
  \<open>REDIS.keys(pattern)\<close> for the pattern \<open>prefix*\<close>: the keys that start with
  \<open>prefix\<close>. (The prefixes built by the program are a fixed word, a network address and a
  class name; none of them holds a wildcard of the backend's pattern language.)
\<close>

definition redis_keys :: "string \<Rightarrow> world \<Rightarrow> (exn + string list) \<times> world" where
  "redis_keys prefix w =
     (if raises w then (Inl BackendError, called (RedisKeys (prefix @ ''*'')) w)
      else (Inr (filter (\<lambda>k. take (length prefix) k = prefix) (map fst (redis w))),
            called (RedisKeys (prefix @ ''*'')) w))"

text \<open>\<open>REDIS.set(key, value)\<close>: stores the value; the key has no expiry afterwards.\<close>

definition redis_set :: "string \<Rightarrow> json \<Rightarrow> world \<Rightarrow> (exn + unit) \<times> world" where
  "redis_set key v w =
     (if raises w then (Inl BackendError, called (RedisSet key v) w)
      else (Inr (), called (RedisSet key v) (w\<lparr>redis := AList.update key (v, None) (redis w)\<rparr>)))"

text \<open>\<open>REDIS.expire(key, seconds)\<close>: sets the time to live of a key that is there.\<close>

definition redis_expire :: "string \<Rightarrow> nat \<Rightarrow> world \<Rightarrow> (exn + unit) \<times> world" where
  "redis_expire key seconds w =
     (if raises w then (Inl BackendError, called (RedisExpire key seconds) w)
      else (Inr (),
            called (RedisExpire key seconds)
              (w\<lparr>redis := (case map_of (redis w) key of
                              None \<Rightarrow> redis w
                            | Some (v, _) \<Rightarrow> AList.update key (v, Some seconds) (redis w))\<rparr>)))"

section \<open>The rate limiter\<close>

text \<open>
  \<^verbatim>\<open>
  RATE_LIMIT_WINDOW_SIZE_IN_MINUTES = 1
  RATE_LIMIT_REQUESTS_PER_USER_PER_MINUTE = {
      "SpliceAI: computed": 4,
      "SpliceAI: total": 20,
      "liftover: total": 12,
  }
  \<close>
\<close>

definition RATE_LIMIT_WINDOW_SIZE_IN_MINUTES :: nat where
  "RATE_LIMIT_WINDOW_SIZE_IN_MINUTES = 1"

definition RATE_LIMIT_REQUESTS_PER_USER_PER_MINUTE :: "(string \<times> nat) list" where
  "RATE_LIMIT_REQUESTS_PER_USER_PER_MINUTE =
     [(''SpliceAI: computed'', 4), (''SpliceAI: total'', 20), (''liftover: total'', 12)]"

text \<open>
  \<^verbatim>\<open>
  def exceeds_rate_limit(user_id, request_type):
      if request_type not in RATE_LIMIT_REQUESTS_PER_USER_PER_MINUTE:
          raise ValueError(f"Invalid 'request_type' arg value: {request_type}")
      max_requests_per_minute = RATE_LIMIT_REQUESTS_PER_USER_PER_MINUTE[request_type]
      max_requests = RATE_LIMIT_WINDOW_SIZE_IN_MINUTES * max_requests_per_minute
      epoch_time = time.time()  # seconds since 1970
      try:
          redis_key_prefix = f"request {user_id} {request_type}"
          keys = REDIS.keys(f"{redis_key_prefix}*")
          if len(keys) >= max_requests:
              return True
          REDIS.set(f"{redis_key_prefix}: {epoch_time}", 1)
          REDIS.expire(f"{redis_key_prefix}: {epoch_time}", RATE_LIMIT_WINDOW_SIZE_IN_MINUTES * 60)
      except Exception as e:
          print(f"Redis error: {e}", flush=True)
      return False
  \<close>
  \<open>epoch_time\<close> is what \<open>time.time()\<close> returned, as the f-string renders it; the
  function uses it nowhere else.
\<close>

definition redis_key_prefix :: "string \<Rightarrow> string \<Rightarrow> string" where
  "redis_key_prefix user_id request_type = ''request '' @ user_id @ '' '' @ request_type"

definition exceeds_rate_limit :: "string \<Rightarrow> string \<Rightarrow> string \<Rightarrow> world \<Rightarrow> (exn + bool) \<times> world" where
  "exceeds_rate_limit epoch_time user_id request_type w =
     (case map_of RATE_LIMIT_REQUESTS_PER_USER_PER_MINUTE request_type of
        None \<Rightarrow> (Inl (ValueError (''Invalid 'request_type' arg value: '' @ request_type)), w)
      | Some max_requests_per_minute \<Rightarrow>
          (let max_requests = RATE_LIMIT_WINDOW_SIZE_IN_MINUTES * max_requests_per_minute;
               prefix = redis_key_prefix user_id request_type
           in case redis_keys prefix w of
                (Inl e, w1) \<Rightarrow> (Inr False, w1)
              | (Inr keys, w1) \<Rightarrow>
                  if length keys \<ge> max_requests then (Inr True, w1)
                  else (case redis_set (prefix @ '': '' @ epoch_time) (JInt 1) w1 of
                          (Inl e, w2) \<Rightarrow> (Inr False, w2)
                        | (Inr _, w2) \<Rightarrow>
                            (case redis_expire (prefix @ '': '' @ epoch_time)
                                    (RATE_LIMIT_WINDOW_SIZE_IN_MINUTES * 60) w2 of
                               (_, w3) \<Rightarrow> (Inr False, w3)))))"

text \<open>
  The live markers of a pair (client identity, request class): the keys of the backend
  that start with the prefix of the pair. This is the list the admission check counts.
\<close>

definition live_markers :: "world \<Rightarrow> string \<Rightarrow> string \<Rightarrow> string list" where
  "live_markers w user_id request_type =
     filter (\<lambda>k. take (length (redis_key_prefix user_id request_type)) k
                  = redis_key_prefix user_id request_type)
       (map fst (redis w))"

section \<open>The annotation index and the precomputed score files\<close>

text \<open>
  \<^verbatim>\<open>
  ANNOTATION_INTERVAL_TREES[genome_version][chrom].add(
      Interval(row["TX_START"], row["TX_END"] + 0.1, row["#NAME"]))
  \<close>
  An interval of a tree covers \<open>begin \<le> p < end\<close>. With \<open>end = TX_END + 0.1\<close> and an
  integer \<open>p\<close> that is \<open>TX_START \<le> p \<le> TX_END\<close>.
\<close>

record interval =
  TX_START :: int
  TX_END :: int
  NAME :: string

definition at :: "interval list \<Rightarrow> int \<Rightarrow> interval list" where
  "at tree p = filter (\<lambda>i. TX_START i \<le> p \<and> p \<le> TX_END i) tree"

text \<open>
  What the module loads when it starts, and the collaborators it calls:
  \<^item> the two annotation trees, per chromosome (a \<open>defaultdict\<close>: a chromosome that was
    never loaded has the empty tree);
  \<^item> \<open>SPLICEAI_CACHE_FILES\<close>, from (mask, class, build) to the \<open>fetch\<close> of an indexed
    file, which returns the lines of a region or raises;
  \<^item> \<open>get_delta_scores\<close> with the annotator of a build, which returns score strings or
    raises (\<open>Inl\<close>: the exception as \<open>f"{type(e)}: {e}"\<close> renders it);
  \<^item> the liftOver command on a chain file and the text of the input file, which
    returns the texts of the output file and of the unmapped file, or exits non-zero
    (\<open>Inl\<close>: the exception as \<open>f"{e}"\<close> renders it).
\<close>

record env =
  annotation37 :: "string \<Rightarrow> interval list"
  annotation38 :: "string \<Rightarrow> interval list"
  SPLICEAI_CACHE_FILES :: "cache_key \<Rightarrow> (string \<Rightarrow> int \<Rightarrow> int \<Rightarrow> exn + string list) option"
  get_delta_scores :: "string \<times> int \<times> string \<times> string \<Rightarrow> string \<Rightarrow> int \<Rightarrow> int \<Rightarrow> string + string list"
  liftOver :: "string \<Rightarrow> string \<Rightarrow> string + string \<times> string"

definition ANNOTATION_INTERVAL_TREES :: "env \<Rightarrow> string \<Rightarrow> (string \<Rightarrow> interval list) option" where
  "ANNOTATION_INTERVAL_TREES e genome_version =
     (if genome_version = ''37'' then Some (annotation37 e)
      else if genome_version = ''38'' then Some (annotation38 e)
      else None)"

definition OTHER_GENOME_VERSION :: "string \<Rightarrow> string option" where
  "OTHER_GENOME_VERSION genome_version =
     (if genome_version = ''37'' then Some ''38''
      else if genome_version = ''38'' then Some ''37''
      else None)"

definition SPLICEAI_MAX_DISTANCE_LIMIT :: int where
  "SPLICEAI_MAX_DISTANCE_LIMIT = 10000"

definition SPLICEAI_DEFAULT_DISTANCE :: int where
  "SPLICEAI_DEFAULT_DISTANCE = 50"

definition SPLICEAI_DEFAULT_MASK :: int where
  "SPLICEAI_DEFAULT_MASK = 0"

definition USE_PRECOMPUTED_SCORES :: int where
  "USE_PRECOMPUTED_SCORES = 1"

section \<open>The scoring pipeline\<close>

text \<open>The error dict of \<open>process_variant\<close> and its messages.\<close>

definition error_dict :: "string \<Rightarrow> string \<Rightarrow> dict" where
  "error_dict variant message = [(''variant'', JStr variant), (''error'', JStr message)]"

definition variant_text :: "string \<Rightarrow> int \<Rightarrow> string \<Rightarrow> string \<Rightarrow> string" where
  "variant_text chrom pos ref alt = chrom @ ''-'' @ str_int pos @ ''-'' @ ref @ ''-'' @ alt"

definition complex_indel_message :: "string \<Rightarrow> int \<Rightarrow> string \<Rightarrow> string \<Rightarrow> string" where
  "complex_indel_message chrom pos ref alt =
     ''ERROR: SpliceAI does not currently support complex InDels like ''
     @ variant_text chrom pos ref alt"

definition wrong_build_message :: "string \<Rightarrow> string \<Rightarrow> string \<Rightarrow> int \<Rightarrow> string \<Rightarrow> string \<Rightarrow> string \<Rightarrow> string" where
  "wrong_build_message genome_version other_genome_version chrom pos ref alt other_genome_genes =
     ''ERROR: In GRCh'' @ genome_version @ '', '' @ variant_text chrom pos ref alt
     @ '' falls outside all gencode exons and introns.''
     @ ''SpliceAI only works for variants within known exons or introns. However, in GRCh''
     @ other_genome_version @ '', '' @ chrom @ '':'' @ str_int pos @ '' falls within ''
     @ other_genome_genes @ '', so perhaps GRCh'' @ genome_version
     @ '' is not the correct genome version?''"

definition outside_annotation_message :: "string \<Rightarrow> string \<Rightarrow> int \<Rightarrow> string \<Rightarrow> string \<Rightarrow> string" where
  "outside_annotation_message genome_version chrom pos ref alt =
     ''ERROR: '' @ variant_text chrom pos ref alt
     @ '' falls outside all Gencode exons and introns on GRCh'' @ genome_version
     @ ''. SpliceAI only works for variants that are within known exons or introns.''"

definition rate_limit_message :: "string \<Rightarrow> string" where
  "rate_limit_message what =
     ''ERROR: Rate limit reached. To prevent a user from overwhelming the server and making it ''
     @ ''unavailable to other users, this tool allows no more than '' @ what
     @ '' per minute per user.''"

definition no_scores_message :: "string \<Rightarrow> string" where
  "no_scores_message variant =
     ''ERROR: The SpliceAI model did not return any scores for '' @ variant
     @ ''. This is typically due to the variant not being within any exon or intron as defined in Gencode v36''"

text \<open>
  \<^verbatim>\<open>
  other_genome_genes = " and ".join(sorted(set(
      [str(i.data).split("---")[0] for i in other_genome_overlapping_intervals])))
  \<close>
\<close>

definition other_genome_genes :: "interval list \<Rightarrow> string" where
  "other_genome_genes intervals =
     join '' and '' (sort (remdups (map (\<lambda>i. before_sep ''---'' (NAME i)) intervals)))"

text \<open>
  The key of the precomputed file:
  \<^verbatim>\<open>
  key = (
      "masked" if str(spliceai_mask) == "1" else ("raw" if str(spliceai_mask) == "0" else None),
      "snv" if len(ref) == 1 and len(alt) == 1 else "indel",
      "hg19" if genome_version == "37" else ("hg38" if genome_version == "38" else None),
  )
  \<close>
\<close>

definition precomputed_key :: "int \<Rightarrow> string \<Rightarrow> string \<Rightarrow> string \<Rightarrow> cache_key" where
  "precomputed_key spliceai_mask ref alt genome_version =
     (if str_int spliceai_mask = ''1'' then Some ''masked''
      else if str_int spliceai_mask = ''0'' then Some ''raw'' else None,
      if length ref = 1 \<and> length alt = 1 then ''snv'' else ''indel'',
      if genome_version = ''37'' then Some ''hg19''
      else if genome_version = ''38'' then Some ''hg38'' else None)"

text \<open>
  One line of the region:
  \<^verbatim>\<open>
  fields = line.split("\t")
  if fields[0] == chrom and int(fields[1]) == pos and fields[3] == ref and fields[4] == alt:
      scores.append(fields[7])
  \<close>
  \<open>and\<close> stops at the first false operand, so a field is read only when the fields
  before it matched. The result is the score string to append, if the line matches.
\<close>

definition line_score :: "string \<Rightarrow> int \<Rightarrow> string \<Rightarrow> string \<Rightarrow> string \<Rightarrow> exn + string option" where
  "line_score chrom pos ref alt line =
     (let fields = split_char (CHR 0x09) line in
      bind_exn (py_nth fields 0) (\<lambda>f0.
        if f0 \<noteq> chrom then Inr None
        else bind_exn (py_nth fields 1) (\<lambda>f1.
          case py_int f1 of
            None \<Rightarrow> Inl (ValueError (''invalid literal for int() with base 10: '' @ f1))
          | Some n \<Rightarrow>
              if n \<noteq> pos then Inr None
              else bind_exn (py_nth fields 3) (\<lambda>f3.
                if f3 \<noteq> ref then Inr None
                else bind_exn (py_nth fields 4) (\<lambda>f4.
                  if f4 \<noteq> alt then Inr None
                  else bind_exn (py_nth fields 7) (\<lambda>f7. Inr (Some f7)))))))"

text \<open>
  The loop over the lines. An exception leaves the loop with the scores appended so far
  (the \<open>except\<close> clause does not reset \<open>scores\<close>).
\<close>

fun scan_lines :: "string \<Rightarrow> int \<Rightarrow> string \<Rightarrow> string \<Rightarrow> string list \<Rightarrow> string list \<Rightarrow> exn option \<times> string list" where
  "scan_lines chrom pos ref alt [] scores = (None, scores)"
| "scan_lines chrom pos ref alt (line # lines) scores =
     (case line_score chrom pos ref alt line of
        Inl e \<Rightarrow> (Some e, scores)
      | Inr None \<Rightarrow> scan_lines chrom pos ref alt lines scores
      | Inr (Some f7) \<Rightarrow> scan_lines chrom pos ref alt lines (scores @ [f7]))"

text \<open>
  The condition under which the precomputed files are tried:
  \<^verbatim>\<open>
  if (len(ref) <= 5 or len(alt) <= 2) and str(spliceai_distance) == str(SPLICEAI_DEFAULT_DISTANCE) \
          and str(use_precomputed_scores) == "1":
  \<close>
\<close>

definition precomputed_eligible :: "string \<Rightarrow> string \<Rightarrow> int \<Rightarrow> int \<Rightarrow> bool" where
  "precomputed_eligible ref alt spliceai_distance use_precomputed_scores =
     ((length ref \<le> 5 \<or> length alt \<le> 2)
      \<and> str_int spliceai_distance = str_int SPLICEAI_DEFAULT_DISTANCE
      \<and> str_int use_precomputed_scores = ''1'')"

text \<open>
  The \<open>try\<close> block of the lookup:
  \<^verbatim>\<open>
  try:
      results = SPLICEAI_CACHE_FILES[key].fetch(chrom, pos-1, pos+1)
      for line in results:
          ...
      if scores:
          source = "lookup"
  except Exception as e:
      print(f"ERROR: couldn't retrieve scores using tabix: {type(e)}: {e}", flush=True)
  \<close>
  A key without a file is a \<open>KeyError\<close> before any file is read. The result is
  (scores, source).
\<close>

definition lookup_precomputed ::
  "env \<Rightarrow> string \<Rightarrow> int \<Rightarrow> string \<Rightarrow> string \<Rightarrow> string \<Rightarrow> int \<Rightarrow> world
     \<Rightarrow> (string list \<times> string option) \<times> world" where
  "lookup_precomputed e chrom pos ref alt genome_version spliceai_mask w =
     (let key = precomputed_key spliceai_mask ref alt genome_version in
      case SPLICEAI_CACHE_FILES e key of
        None \<Rightarrow> (([], None), w)
      | Some fetch \<Rightarrow>
          (let w1 = called (TabixFetch key chrom (pos - 1) (pos + 1)) w in
           case fetch chrom (pos - 1) (pos + 1) of
             Inl ex \<Rightarrow> (([], None), w1)
           | Inr results \<Rightarrow>
               (case scan_lines chrom pos ref alt results [] of
                  (Some ex, scores) \<Rightarrow> ((scores, None), w1)
                | (None, scores) \<Rightarrow>
                    ((scores, if scores \<noteq> [] then Some ''lookup'' else None), w1))))"

text \<open>
  \<^verbatim>\<open>
  scores = [s[s.index("|")+1:] for s in scores]  # drop allele field
  \<close>
\<close>

fun drop_allele_fields :: "string list \<Rightarrow> exn + string list" where
  "drop_allele_fields [] = Inr []"
| "drop_allele_fields (s # ss) =
     bind_exn (after_first (CHR ''|'') s) (\<lambda>t.
       bind_exn (drop_allele_fields ss) (\<lambda>ts. Inr (t # ts)))"

text \<open>The end of \<open>process_variant\<close>, from the second \<open>if not scores:\<close> on.\<close>

definition score_dict ::
  "string \<Rightarrow> string \<Rightarrow> string \<Rightarrow> int \<Rightarrow> string \<Rightarrow> string \<Rightarrow> string list \<Rightarrow> string option \<Rightarrow> exn + dict" where
  "score_dict variant genome_version chrom pos ref alt scores source =
     (if scores = [] then Inr (error_dict variant (no_scores_message variant))
      else bind_exn (drop_allele_fields scores) (\<lambda>scores'.
             Inr [(''variant'', JStr variant),
                  (''genome_version'', JStr genome_version),
                  (''chrom'', JStr chrom),
                  (''pos'', JInt pos),
                  (''ref'', JStr ref),
                  (''alt'', JStr alt),
                  (''scores'', JList (map JStr scores')),
                  (''source'', (case source of None \<Rightarrow> JNull | Some src \<Rightarrow> JStr src))]))"

definition ceiling_text :: "string \<Rightarrow> string" where
  "ceiling_text request_type =
     (case map_of RATE_LIMIT_REQUESTS_PER_USER_PER_MINUTE request_type of
        None \<Rightarrow> []
      | Some n \<Rightarrow> str_int (int n))"

text \<open>
  The block under the first \<open>if not scores:\<close>: the admission check of the class
  "SpliceAI: computed", then the model, then the end of the function.
  \<^verbatim>\<open>
  if exceeds_rate_limit(request.remote_addr, request_type="SpliceAI: computed"):
      return {"variant": variant, "error": f"ERROR: Rate limit reached. ..."}
  record = VariantRecord(chrom, pos, ref, alt)
  try:
      scores = get_delta_scores(record, SPLICEAI_ANNOTATOR[genome_version], spliceai_distance, spliceai_mask)
      source = "computed"
  except Exception as e:
      return {"variant": variant, "error": f"ERROR: {type(e)}: {e}"}
  \<close>
  \<open>remote_addr\<close> is \<open>request.remote_addr\<close>.
\<close>

definition compute_scores ::
  "env \<Rightarrow> string \<Rightarrow> string \<Rightarrow> string \<Rightarrow> string \<Rightarrow> string \<Rightarrow> int \<Rightarrow> string \<Rightarrow> string
     \<Rightarrow> int \<Rightarrow> int \<Rightarrow> world \<Rightarrow> (exn + dict) \<times> world" where
  "compute_scores e remote_addr epoch_time variant genome_version chrom pos ref alt
       spliceai_distance spliceai_mask w =
     (case exceeds_rate_limit epoch_time remote_addr ''SpliceAI: computed'' w of
        (Inl ex, w1) \<Rightarrow> (Inl ex, w1)
      | (Inr True, w1) \<Rightarrow>
          (Inr (error_dict variant
             (rate_limit_message (ceiling_text ''SpliceAI: computed'' @ '' computed requests''))), w1)
      | (Inr False, w1) \<Rightarrow>
          (case get_delta_scores e (chrom, pos, ref, alt) genome_version
                  spliceai_distance spliceai_mask of
             Inl rendered \<Rightarrow>
               (Inr (error_dict variant (''ERROR: '' @ rendered)),
                called (GetDeltaScores (chrom, pos, ref, alt) genome_version
                          spliceai_distance spliceai_mask) w1)
           | Inr computed \<Rightarrow>
               (score_dict variant genome_version chrom pos ref alt computed (Some ''computed''),
                called (GetDeltaScores (chrom, pos, ref, alt) genome_version
                          spliceai_distance spliceai_mask) w1)))"

text \<open>
  \<open>process_variant\<close> from \<open>source = None\<close> on: the lookup when the request is
  eligible for it, the computation when the lookup gave no score, the end of the function.
\<close>

definition resolve_scores ::
  "env \<Rightarrow> string \<Rightarrow> string \<Rightarrow> string \<Rightarrow> string \<Rightarrow> string \<Rightarrow> int \<Rightarrow> string \<Rightarrow> string
     \<Rightarrow> int \<Rightarrow> int \<Rightarrow> int \<Rightarrow> world \<Rightarrow> (exn + dict) \<times> world" where
  "resolve_scores e remote_addr epoch_time variant genome_version chrom pos ref alt
       spliceai_distance spliceai_mask use_precomputed_scores w =
     (case (if precomputed_eligible ref alt spliceai_distance use_precomputed_scores
            then lookup_precomputed e chrom pos ref alt genome_version spliceai_mask w
            else (([], None), w)) of
        ((scores, source), w1) \<Rightarrow>
          if scores = []
          then compute_scores e remote_addr epoch_time variant genome_version chrom pos ref alt
                 spliceai_distance spliceai_mask w1
          else (score_dict variant genome_version chrom pos ref alt scores source, w1))"

text \<open>
  \<open>process_variant\<close>: parsing, the complex-indel check, the annotation check, and then
  \<open>resolve_scores\<close>. Only the \<open>ValueError\<close> of the parser is caught; a genome version that
  is no key of \<open>ANNOTATION_INTERVAL_TREES\<close> is a \<open>KeyError\<close> that leaves the function.
\<close>

definition process_variant ::
  "env \<Rightarrow> string \<Rightarrow> string \<Rightarrow> string \<Rightarrow> string \<Rightarrow> int \<Rightarrow> int \<Rightarrow> int \<Rightarrow> world
     \<Rightarrow> (exn + dict) \<times> world" where
  "process_variant e remote_addr epoch_time variant genome_version
       spliceai_distance spliceai_mask use_precomputed_scores w =
     (case parse_variant variant of
        Inl (ValueError m) \<Rightarrow> (Inr (error_dict variant (''ERROR: '' @ m)), w)
      | Inl ex \<Rightarrow> (Inl ex, w)
      | Inr (chrom, pos, ref, alt) \<Rightarrow>
          if length ref > 1 \<and> length alt > 1
          then (Inr (error_dict variant (complex_indel_message chrom pos ref alt)), w)
          else
            (let chrom_without_chr = remove_chr chrom in
             case ANNOTATION_INTERVAL_TREES e genome_version of
               None \<Rightarrow> (Inl (KeyError genome_version), w)
             | Some trees \<Rightarrow>
                 if at (trees chrom_without_chr) pos = [] then
                   (case OTHER_GENOME_VERSION genome_version of
                      None \<Rightarrow> (Inl (KeyError genome_version), w)
                    | Some other_genome_version \<Rightarrow>
                        (case ANNOTATION_INTERVAL_TREES e other_genome_version of
                           None \<Rightarrow> (Inl (KeyError other_genome_version), w)
                         | Some other_trees \<Rightarrow>
                             (let other_genome_overlapping_intervals =
                                    at (other_trees chrom_without_chr) pos in
                              if other_genome_overlapping_intervals \<noteq> []
                              then (Inr (error_dict variant
                                      (wrong_build_message genome_version other_genome_version
                                         chrom pos ref alt
                                         (other_genome_genes other_genome_overlapping_intervals))), w)
                              else (Inr (error_dict variant
                                      (outside_annotation_message genome_version chrom pos ref alt)), w))))
                 else resolve_scores e remote_addr epoch_time variant genome_version chrom pos ref alt
                        spliceai_distance spliceai_mask use_precomputed_scores w))"

section \<open>The result cache of the scoring endpoint\<close>

text \<open>
  \<^verbatim>\<open>
  def get_spliceai_redis_key(variant, genome_version, spliceai_distance, spliceai_mask, use_precomputed_scores):
      return f"{variant}__hg{genome_version}__d{spliceai_distance}__m{spliceai_mask}__pre{use_precomputed_scores}"
  \<close>
\<close>

definition get_spliceai_redis_key :: "string \<Rightarrow> string \<Rightarrow> int \<Rightarrow> int \<Rightarrow> int \<Rightarrow> string" where
  "get_spliceai_redis_key variant genome_version spliceai_distance spliceai_mask use_precomputed_scores =
     variant @ ''__hg'' @ genome_version @ ''__d'' @ str_int spliceai_distance
     @ ''__m'' @ str_int spliceai_mask @ ''__pre'' @ str_int use_precomputed_scores"

text \<open>
  \<^verbatim>\<open>
  results = None
  try:
      results_string = REDIS.get(key)
      if results_string:
          results = json.loads(results_string)
          results["source"] += ":redis"
  except Exception as e:
      print(f"Redis error: {e}", flush=True)
  return results
  \<close>
  When \<open>results["source"] += ":redis"\<close> raises (no dict, no such key, a value that takes
  no \<open>str\<close>), \<open>results\<close> is already bound to the decoded value and is returned as it is.
  On a list, \<open>+=\<close> appends the characters of the string.
\<close>

definition tag_redis :: "json \<Rightarrow> json" where
  "tag_redis v =
     (case v of
        JDict d \<Rightarrow>
          (case map_of d ''source'' of
             Some (JStr src) \<Rightarrow> JDict (AList.update ''source'' (JStr (src @ '':redis'')) d)
           | Some (JList xs) \<Rightarrow>
               JDict (AList.update ''source'' (JList (xs @ map (\<lambda>c. JStr [c]) '':redis'')) d)
           | _ \<Rightarrow> v)
      | _ \<Rightarrow> v)"

definition get_spliceai_from_redis ::
  "string \<Rightarrow> string \<Rightarrow> int \<Rightarrow> int \<Rightarrow> int \<Rightarrow> world \<Rightarrow> json option \<times> world" where
  "get_spliceai_from_redis variant genome_version spliceai_distance spliceai_mask use_precomputed_scores w =
     (case redis_get (get_spliceai_redis_key variant genome_version spliceai_distance
                        spliceai_mask use_precomputed_scores) w of
        (Inl ex, w1) \<Rightarrow> (None, w1)
      | (Inr None, w1) \<Rightarrow> (None, w1)
      | (Inr (Some v), w1) \<Rightarrow> (Some (tag_redis v), w1))"

text \<open>
  \<^verbatim>\<open>
  try:
      results_string = json.dumps(results)
      REDIS.set(key, results_string)
  except Exception as e:
      print(f"Redis error: {e}", flush=True)
  \<close>
\<close>

definition add_spliceai_to_redis ::
  "string \<Rightarrow> string \<Rightarrow> int \<Rightarrow> int \<Rightarrow> int \<Rightarrow> dict \<Rightarrow> world \<Rightarrow> world" where
  "add_spliceai_to_redis variant genome_version spliceai_distance spliceai_mask use_precomputed_scores results w =
     snd (redis_set (get_spliceai_redis_key variant genome_version spliceai_distance
                       spliceai_mask use_precomputed_scores) (JDict results) w)"

section \<open>The scoring endpoint\<close>

text \<open>
  A request: the address of the client and the parameters, after the values of the query
  string and the form (and, without a \<open>variant\<close> among them, of a JSON body) are merged.
  The values are strings. A response is the object that is written as JSON and the HTTP
  status.
\<close>

record request =
  remote_addr :: string
  params :: "(string \<times> string) list"

record response =
  body :: json
  status :: nat

definition error_response :: "string \<Rightarrow> response" where
  "error_response error_message = \<lparr>body = JDict [(''error'', JStr error_message)], status = 400\<rparr>"

definition SPLICEAI_EXAMPLE :: string where
  "SPLICEAI_EXAMPLE = ''/spliceai/?hg=38&distance=50&mask=0&precomputed=1&variant=chr8-140300615-C-G''"

definition json_params :: "(string \<times> string) list \<Rightarrow> dict" where
  "json_params ps = map (\<lambda>(k, v). (k, JStr v)) ps"

text \<open>
  The end of \<open>run_spliceai\<close>, from the cache check on:
  \<^verbatim>\<open>
  results = get_spliceai_from_redis(variant, genome_version, spliceai_distance, spliceai_mask, use_precomputed_scores)
  if not results:
      results = process_variant(variant, genome_version, spliceai_distance, spliceai_mask, use_precomputed_scores)
      if "error" not in results:
          add_spliceai_to_redis(variant, genome_version, spliceai_distance, spliceai_mask, use_precomputed_scores, results)
  status = 400 if results.get("error") else 200
  response_json = {}
  response_json.update(params)  # copy input params to output
  response_json.update(results)
  duration = str(datetime.now() - start_time)
  response_json['duration'] = duration
  return Response(json.dumps(response_json), status=status, mimetype='application/json')
  \<close>
  A cached value that is true and no dict has no \<open>get\<close>: \<open>AttributeError\<close>.
\<close>

definition respond :: "request \<Rightarrow> string \<Rightarrow> dict \<Rightarrow> response" where
  "respond req duration results =
     \<lparr>body = JDict (AList.update ''duration'' (JStr duration)
                      (dict_update (dict_update [] (json_params (params req))) results)),
      status = (case map_of results ''error'' of
                  None \<Rightarrow> 200
                | Some v \<Rightarrow> if truthy v then 400 else 200)\<rparr>"

definition cached_or_processed ::
  "env \<Rightarrow> request \<Rightarrow> string \<Rightarrow> string \<Rightarrow> string \<Rightarrow> string \<Rightarrow> int \<Rightarrow> int \<Rightarrow> int \<Rightarrow> world
     \<Rightarrow> (exn + response) \<times> world" where
  "cached_or_processed e req epoch_time duration variant genome_version
       spliceai_distance spliceai_mask use_precomputed_scores w =
     (case get_spliceai_from_redis variant genome_version spliceai_distance
             spliceai_mask use_precomputed_scores w of
        (cached, w1) \<Rightarrow>
          if (case cached of None \<Rightarrow> True | Some v \<Rightarrow> \<not> truthy v) then
            (case process_variant e (remote_addr req) epoch_time variant genome_version
                    spliceai_distance spliceai_mask use_precomputed_scores w1 of
               (Inl ex, w2) \<Rightarrow> (Inl ex, w2)
             | (Inr results, w2) \<Rightarrow>
                 (Inr (respond req duration results),
                  if map_of results ''error'' = None
                  then add_spliceai_to_redis variant genome_version spliceai_distance
                         spliceai_mask use_precomputed_scores results w2
                  else w2))
          else
            (case cached of
               Some (JDict results) \<Rightarrow> (Inr (respond req duration results), w1)
             | _ \<Rightarrow> (Inl AttributeError, w1)))"

text \<open>The messages of the parameter checks.\<close>

definition variant_missing_message :: string where
  \<open>variant_missing_message =
     ''"variant" not specified. For example: '' @ SPLICEAI_EXAMPLE @ [CHR 0x0A]\<close>

definition hg_missing_message :: string where
  \<open>hg_missing_message =
     ''"hg" not specified. The URL must include an "hg" arg: hg=37 or hg=38. For example: ''
     @ SPLICEAI_EXAMPLE @ [CHR 0x0A]\<close>

definition hg_invalid_message :: "string \<Rightarrow> string" where
  \<open>hg_invalid_message genome_version =
     ''Invalid "hg" value: "'' @ genome_version
     @ ''". The value must be either "37" or "38". For example: '' @ SPLICEAI_EXAMPLE @ [CHR 0x0A]\<close>

definition distance_not_integer_message :: "string \<Rightarrow> string" where
  \<open>distance_not_integer_message spliceai_distance =
     ''Invalid "distance": "'' @ spliceai_distance @ ''". The value must be an integer.'' @ [CHR 0x0A]\<close>

definition distance_too_large_message :: "int \<Rightarrow> string" where
  \<open>distance_too_large_message spliceai_distance =
     ''Invalid "distance": "'' @ str_int spliceai_distance @ ''". The value must be < ''
     @ str_int SPLICEAI_MAX_DISTANCE_LIMIT @ ''.'' @ [CHR 0x0A]\<close>

definition mask_invalid_message :: "string \<Rightarrow> string" where
  \<open>mask_invalid_message spliceai_mask =
     ''Invalid "mask" value: "'' @ spliceai_mask
     @ ''". The value must be either "0" or "1". For example: '' @ SPLICEAI_EXAMPLE @ [CHR 0x0A]\<close>

definition precomputed_invalid_message :: "string \<Rightarrow> string" where
  \<open>precomputed_invalid_message use_precomputed_scores =
     ''Invalid "precomputed" value: "'' @ use_precomputed_scores
     @ ''". The value must be either "0" or "1". For example: '' @ SPLICEAI_EXAMPLE @ [CHR 0x0A]\<close>

text \<open>
  \<^verbatim>\<open>
  variant = params.get('variant', '')
  variant = variant.strip().strip("'").strip('"').strip(",")
  \<close>
\<close>

definition clean_variant :: "(string \<times> string) list \<Rightarrow> string" where
  "clean_variant ps =
     strip_char (CHR '','') (strip_char (CHR 0x22) (strip_char (CHR 0x27)
       (strip_space (case map_of ps ''variant'' of None \<Rightarrow> [] | Some v \<Rightarrow> v))))"

text \<open>
  \<^verbatim>\<open>
  spliceai_distance = params.get("distance", SPLICEAI_DEFAULT_DISTANCE)
  try:
      spliceai_distance = int(spliceai_distance)
  except Exception as e:
      return error_response(f'Invalid "distance": "{spliceai_distance}". The value must be an integer.\n')
  \<close>
  \<open>Inl\<close>: the text that is no integer.
\<close>

definition distance_param :: "(string \<times> string) list \<Rightarrow> string + int" where
  "distance_param ps =
     (case map_of ps ''distance'' of
        None \<Rightarrow> Inr SPLICEAI_DEFAULT_DISTANCE
      | Some text \<Rightarrow> (case py_int text of None \<Rightarrow> Inl text | Some d \<Rightarrow> Inr d))"

text \<open>
  The checks of the parameters in \<open>run_spliceai\<close>, in the order of the source: the
  response that ends the request, or (variant, genome_version, spliceai_distance,
  spliceai_mask, use_precomputed_scores) as they are passed on.
  \<^verbatim>\<open>
  if spliceai_distance > SPLICEAI_MAX_DISTANCE_LIMIT:
      return error_response(f'Invalid "distance": "{spliceai_distance}". The value must be < {SPLICEAI_MAX_DISTANCE_LIMIT}.\n')
  spliceai_mask = params.get("mask", str(SPLICEAI_DEFAULT_MASK))
  if spliceai_mask not in ("0", "1"):
      return error_response(...)
  spliceai_mask = int(spliceai_mask)
  use_precomputed_scores = params.get("precomputed", str(USE_PRECOMPUTED_SCORES))
  if use_precomputed_scores not in ("0", "1"):
      return error_response(...)
  use_precomputed_scores = int(use_precomputed_scores)
  \<close>
\<close>

definition spliceai_params ::
  "(string \<times> string) list \<Rightarrow> response + (string \<times> string \<times> int \<times> int \<times> int)" where
  "spliceai_params ps =
     (let variant = clean_variant ps in
      if variant = [] then Inl (error_response variant_missing_message)
      else
        (case map_of ps ''hg'' of
           None \<Rightarrow> Inl (error_response hg_missing_message)
         | Some genome_version \<Rightarrow>
             if genome_version = [] then Inl (error_response hg_missing_message)
             else if genome_version \<noteq> ''37'' \<and> genome_version \<noteq> ''38''
             then Inl (error_response (hg_invalid_message genome_version))
             else
               (case distance_param ps of
                  Inl text \<Rightarrow> Inl (error_response (distance_not_integer_message text))
                | Inr spliceai_distance \<Rightarrow>
                    if spliceai_distance > SPLICEAI_MAX_DISTANCE_LIMIT
                    then Inl (error_response (distance_too_large_message spliceai_distance))
                    else
                      (let spliceai_mask = (case map_of ps ''mask'' of
                                              None \<Rightarrow> str_int SPLICEAI_DEFAULT_MASK
                                            | Some m \<Rightarrow> m) in
                       if spliceai_mask \<noteq> ''0'' \<and> spliceai_mask \<noteq> ''1''
                       then Inl (error_response (mask_invalid_message spliceai_mask))
                       else
                         (let use_precomputed_scores =
                                (case map_of ps ''precomputed'' of
                                   None \<Rightarrow> str_int USE_PRECOMPUTED_SCORES
                                 | Some p \<Rightarrow> p) in
                          if use_precomputed_scores \<noteq> ''0'' \<and> use_precomputed_scores \<noteq> ''1''
                          then Inl (error_response (precomputed_invalid_message use_precomputed_scores))
                          else Inr (variant, genome_version, spliceai_distance,
                                    if spliceai_mask = ''1'' then 1 else 0,
                                    if use_precomputed_scores = ''1'' then 1 else 0))))))"

text \<open>
  \<open>run_spliceai\<close>: the admission check of the class "SpliceAI: total", the checks of the
  parameters, and then \<open>cached_or_processed\<close>. \<open>epoch_total\<close> and \<open>epoch_computed\<close>
  are the two readings of the clock, by this function's admission check and by that of
  \<open>process_variant\<close>; \<open>duration\<close> is the rendered running time.
\<close>

definition run_spliceai ::
  "env \<Rightarrow> request \<Rightarrow> string \<Rightarrow> string \<Rightarrow> string \<Rightarrow> world \<Rightarrow> (exn + response) \<times> world" where
  "run_spliceai e req epoch_total epoch_computed duration w =
     (case exceeds_rate_limit epoch_total (remote_addr req) ''SpliceAI: total'' w of
        (Inl ex, w1) \<Rightarrow> (Inl ex, w1)
      | (Inr True, w1) \<Rightarrow>
          (Inr (error_response (rate_limit_message (ceiling_text ''SpliceAI: total'' @ '' requests''))), w1)
      | (Inr False, w1) \<Rightarrow>
          (case spliceai_params (params req) of
             Inl resp \<Rightarrow> (Inr resp, w1)
           | Inr (variant, genome_version, spliceai_distance, spliceai_mask, use_precomputed_scores) \<Rightarrow>
               cached_or_processed e req epoch_computed duration variant genome_version
                 spliceai_distance spliceai_mask use_precomputed_scores w1))"

section \<open>Liftover\<close>

text \<open>
  \<^verbatim>\<open>
  REVERSE_COMPLEMENT_MAP = dict(zip("ACGTN", "TGCAN"))

  def reverse_complement(seq):
      return "".join([REVERSE_COMPLEMENT_MAP[n] for n in seq[::-1]])
  \<close>
  A character that is no key of the map is a \<open>KeyError\<close>; the first one met, from the end
  of \<open>seq\<close>, is the one reported.
\<close>

definition REVERSE_COMPLEMENT_MAP :: "(char \<times> char) list" where
  "REVERSE_COMPLEMENT_MAP = zip ''ACGTN'' ''TGCAN''"

fun complement_all :: "string \<Rightarrow> exn + string" where
  "complement_all [] = Inr []"
| "complement_all (n # ns) =
     (case map_of REVERSE_COMPLEMENT_MAP n of
        None \<Rightarrow> Inl (KeyError [n])
      | Some c \<Rightarrow> bind_exn (complement_all ns) (\<lambda>cs. Inr (c # cs)))"

definition reverse_complement :: "string \<Rightarrow> exn + string" where
  "reverse_complement seq = complement_all (rev seq)"

text \<open>
  The reverse complement as the specification words it ("the complement-and-reverse of
  the input"): every base is replaced by its complement, and the sequence is reversed.
\<close>

fun complement_base :: "char \<Rightarrow> char" where
  "complement_base c =
     (if c = CHR ''A'' then CHR ''T''
      else if c = CHR ''C'' then CHR ''G''
      else if c = CHR ''G'' then CHR ''C''
      else if c = CHR ''T'' then CHR ''A''
      else c)"

definition complement_and_reverse :: "string \<Rightarrow> string" where
  "complement_and_reverse seq = rev (map complement_base seq)"

text \<open>
  \<open>start\<close> and \<open>end\<close> are the texts of the request for the format \<open>interval\<close>, and
  the integers \<open>pos - 1\<close> and \<open>pos\<close> for the other two formats.
\<close>

datatype coord = Text string | Number int

fun str_coord :: "coord \<Rightarrow> string" where
  "str_coord (Text s) = s"
| "str_coord (Number i) = str_int i"

fun json_coord :: "coord \<Rightarrow> json" where
  "json_coord (Text s) = JStr s"
| "json_coord (Number i) = JInt i"

definition CHAIN_FILE_PATHS :: "(string \<times> string) list" where
  "CHAIN_FILE_PATHS =
     [(''hg19-to-hg38'', ''hg19ToHg38.over.chain.gz''),
      (''hg38-to-hg19'', ''hg38ToHg19.over.chain.gz''),
      (''hg38-to-t2t'', ''hg38.t2t-chm13-v1.0.over.chain.gz''),
      (''t2t-to-hg38'', ''t2t-chm13-v1.0.hg38.over.chain.gz'')]"

definition int_error_message :: "string \<Rightarrow> string" where
  "int_error_message s = ''invalid literal for int() with base 10: '' @ [CHR 0x27] @ s @ [CHR 0x27]"

text \<open>\<open>f.readline()\<close> on the text of a file that was just opened.\<close>

definition first_line :: "string \<Rightarrow> string" where
  "first_line s =
     takeWhile (\<lambda>c. c \<noteq> CHR 0x0A) s @ (if CHR 0x0A \<in> set s then [CHR 0x0A] else [])"

text \<open>
  \<open>run_UCSC_liftover_tool\<close>. The three temporary files are the argument and the result
  of \<open>liftOver\<close>; every exception inside the \<open>try\<close> block is raised again as a
  \<open>ValueError\<close> that carries its text. The function returns a dict or raises a
  \<open>ValueError\<close> (\<open>Inl\<close>: its message).
\<close>

definition run_UCSC_liftover_tool ::
  "env \<Rightarrow> string \<Rightarrow> string \<Rightarrow> coord \<Rightarrow> coord \<Rightarrow> world \<Rightarrow> (string + dict) \<times> world" where
  "run_UCSC_liftover_tool e hg chrom0 start end w =
     (case map_of CHAIN_FILE_PATHS hg of
        None \<Rightarrow> (Inl ((''Unexpected hg arg value: '' @ hg)), w)
      | Some chain_file_path \<Rightarrow>
          (let chrom = ''chr'' @ remove_chr chrom0;
               input = join [CHR 0x09] [chrom, str_coord start, str_coord end, ''.'', ''0'', ''+'']
                       @ [CHR 0x0A];
               place = chrom @ '':'' @ str_coord start @ ''-'' @ str_coord end;
               w1 = called (LiftOver chain_file_path input) w
           in case liftOver e chain_file_path input of
                Inl rendered \<Rightarrow>
                  (Inl ((hg @ '' liftOver command failed for '' @ place @ '': '' @ rendered)), w1)
              | Inr (results, unmapped) \<Rightarrow>
                  (let result_fields = split_char (CHR 0x09) (strip_space results) in
                   if length result_fields > 5 then
                     (case py_int (result_fields ! 1) of
                        None \<Rightarrow>
                          (Inl ((hg @ '' liftOver command failed for '' @ place @ '': ''
                                  @ int_error_message (result_fields ! 1))), w1)
                      | Some output_start \<Rightarrow>
                          (case py_int (result_fields ! 2) of
                             None \<Rightarrow>
                               (Inl ((hg @ '' liftOver command failed for '' @ place @ '': ''
                                       @ int_error_message (result_fields ! 2))), w1)
                           | Some output_end \<Rightarrow>
                               (Inr [(''chrom'', JStr chrom),
                                     (''start'', json_coord start),
                                     (''end'', json_coord end),
                                     (''output_chrom'', JStr (result_fields ! 0)),
                                     (''output_start'', JInt output_start),
                                     (''output_end'', JInt output_end),
                                     (''output_strand'', JStr (result_fields ! 5))], w1)))
                   else
                     (let reason_liftover_failed =
                            strip_space (filter (\<lambda>c. c \<noteq> CHR ''#'') (first_line unmapped)) in
                      if reason_liftover_failed \<noteq> []
                      then (Inl ((hg @ '' liftover failed for '' @ place @ '' ''
                                   @ reason_liftover_failed)), w1)
                      else (Inl ((hg @ '' liftover failed for '' @ place
                                   @ '' for unknown reasons'')), w1)))))"

text \<open>
  \<^verbatim>\<open>
  def get_liftover_redis_key(genome_version, chrom, start, end):
      return f"liftover_hg{genome_version}__{chrom}_{start}_{end}"
  \<close>
\<close>

definition get_liftover_redis_key :: "string \<Rightarrow> string \<Rightarrow> coord \<Rightarrow> coord \<Rightarrow> string" where
  "get_liftover_redis_key genome_version chrom start end =
     ''liftover_hg'' @ genome_version @ ''__'' @ chrom @ ''_'' @ str_coord start @ ''_'' @ str_coord end"

definition get_liftover_from_redis ::
  "string \<Rightarrow> string \<Rightarrow> coord \<Rightarrow> coord \<Rightarrow> world \<Rightarrow> json option \<times> world" where
  "get_liftover_from_redis hg chrom start end w =
     (case redis_get (get_liftover_redis_key hg chrom start end) w of
        (Inl ex, w1) \<Rightarrow> (None, w1)
      | (Inr cached, w1) \<Rightarrow> (cached, w1))"

definition add_liftover_to_redis ::
  "string \<Rightarrow> string \<Rightarrow> coord \<Rightarrow> coord \<Rightarrow> dict \<Rightarrow> world \<Rightarrow> world" where
  "add_liftover_to_redis hg chrom start end result w =
     snd (redis_set (get_liftover_redis_key hg chrom start end) (JDict result) w)"

text \<open>
  \<open>reverse_complement\<close> on a field of the result. The field is a string whenever it
  comes from the parameters of the request; a list is reversed and complemented item by
  item (every item a key of the map, so a one-character string), and a value that cannot
  be sliced is a \<open>TypeError\<close>.
\<close>

fun complement_items :: "json list \<Rightarrow> exn + string" where
  "complement_items [] = Inr []"
| "complement_items (JStr [n] # ns) =
     (case map_of REVERSE_COMPLEMENT_MAP n of
        None \<Rightarrow> Inl (KeyError [n])
      | Some c \<Rightarrow> bind_exn (complement_items ns) (\<lambda>cs. Inr (c # cs)))"
| "complement_items (JStr s # ns) = Inl (KeyError s)"
| "complement_items (JList xs # ns) = Inl TypeError"
| "complement_items (JDict d # ns) = Inl TypeError"
| "complement_items (v # ns) = Inl (KeyError [])"

fun reverse_complement_field :: "json \<Rightarrow> exn + string" where
  "reverse_complement_field (JStr seq) = reverse_complement seq"
| "reverse_complement_field (JList xs) = complement_items (rev xs)"
| "reverse_complement_field v = Inl TypeError"

text \<open>
  The end of \<open>run_liftover\<close>:
  \<^verbatim>\<open>
  result.update(params)
  if format == "position" or format == "variant":
      result["pos"] = pos
      result["output_pos"] = result["output_end"]
  if format == "variant":
      result["output_ref"] = result["ref"]
      result["output_alt"] = result["alt"]
      if result["output_strand"] == "-":
          result["output_ref"] = reverse_complement(result["output_ref"])
          result["output_alt"] = reverse_complement(result["output_alt"])
  \<close>
  \<open>pos\<close> is bound exactly when the format is \<open>position\<close> or \<open>variant\<close>.
\<close>

definition derive_output :: "string \<Rightarrow> int option \<Rightarrow> (string \<times> string) list \<Rightarrow> dict \<Rightarrow> exn + dict" where
  "derive_output format pos ps result0 =
     bind_exn
       (case pos of
          None \<Rightarrow> Inr (dict_update result0 (json_params ps))
        | Some p \<Rightarrow>
            (let r = AList.update ''pos'' (JInt p) (dict_update result0 (json_params ps)) in
             bind_exn (dict_item r ''output_end'') (\<lambda>output_end.
               Inr (AList.update ''output_pos'' output_end r))))
       (\<lambda>result.
          if format = ''variant'' then
            bind_exn (dict_item result ''ref'') (\<lambda>ref.
              let r1 = AList.update ''output_ref'' ref result in
              bind_exn (dict_item r1 ''alt'') (\<lambda>alt.
                let r2 = AList.update ''output_alt'' alt r1 in
                bind_exn (dict_item r2 ''output_strand'') (\<lambda>output_strand.
                  if output_strand = JStr ''-'' then
                    bind_exn (dict_item r2 ''output_ref'') (\<lambda>output_ref.
                      bind_exn (reverse_complement_field output_ref) (\<lambda>rc_ref.
                        let r3 = AList.update ''output_ref'' (JStr rc_ref) r2 in
                        bind_exn (dict_item r3 ''output_alt'') (\<lambda>output_alt.
                          bind_exn (reverse_complement_field output_alt) (\<lambda>rc_alt.
                            Inr (AList.update ''output_alt'' (JStr rc_alt) r3)))))
                  else Inr r2)))
          else Inr result)"

definition LIFTOVER_EXAMPLE :: string where
  "LIFTOVER_EXAMPLE =
     ''/liftover/?hg=hg19-to-hg38&format=interval&chrom=chr8&start=140300615&end=140300620''"

definition VALID_FORMAT_VALUES :: "string list" where
  "VALID_FORMAT_VALUES = [''interval'', ''variant'', ''position'']"

text \<open>
  The message for \<open>hg\<close> joins a set, whose order of iteration the language leaves open;
  the keys are listed here in the order of \<open>CHAIN_FILE_PATHS\<close>.
\<close>

definition hg_param_message :: string where
  \<open>hg_param_message =
     ''"hg" param error. It should be set to '' @ join '' or '' (map fst CHAIN_FILE_PATHS)
     @ ''. For example: '' @ LIFTOVER_EXAMPLE @ [CHR 0x0A]\<close>

definition format_param_message :: string where
  \<open>format_param_message =
     ''"format" param error. It should be set to '' @ join '' or '' VALID_FORMAT_VALUES
     @ ''. For example: '' @ LIFTOVER_EXAMPLE @ [CHR 0x0A]\<close>

definition param_missing_message :: "string \<Rightarrow> string" where
  \<open>param_missing_message name = ''"'' @ name @ ''" param not specified''\<close>

text \<open>
  The interval of the request: (start, end, pos), or the response or the exception that
  ends the request (\<open>int(pos)\<close> is not inside a \<open>try\<close>).
\<close>

definition liftover_coords ::
  "string \<Rightarrow> (string \<times> string) list \<Rightarrow> (exn + response) + (coord \<times> coord \<times> int option)" where
  "liftover_coords format ps =
     (if format = ''interval'' then
        (case map_of ps ''start'' of
           None \<Rightarrow> Inl (Inr (error_response (param_missing_message ''start'')))
         | Some start \<Rightarrow>
             if start = [] then Inl (Inr (error_response (param_missing_message ''start'')))
             else
               (case map_of ps ''end'' of
                  None \<Rightarrow> Inl (Inr (error_response (param_missing_message ''end'')))
                | Some end \<Rightarrow>
                    if end = [] then Inl (Inr (error_response (param_missing_message ''end'')))
                    else Inr (Text start, Text end, None)))
      else
        (case map_of ps ''pos'' of
           None \<Rightarrow> Inl (Inr (error_response (param_missing_message ''pos'')))
         | Some pos_text \<Rightarrow>
             if pos_text = [] then Inl (Inr (error_response (param_missing_message ''pos'')))
             else
               (case py_int pos_text of
                  None \<Rightarrow> Inl (Inl (ValueError (int_error_message pos_text)))
                | Some pos \<Rightarrow> Inr (Number (pos - 1), Number pos, Some pos))))"

text \<open>\<open>run_liftover\<close> from the cache check on.\<close>

definition lift_and_respond ::
  "env \<Rightarrow> request \<Rightarrow> string \<Rightarrow> string \<Rightarrow> string \<Rightarrow> coord \<Rightarrow> coord \<Rightarrow> int option \<Rightarrow> world
     \<Rightarrow> (exn + response) \<times> world" where
  "lift_and_respond e req hg format chrom start end pos w =
     (case get_liftover_from_redis hg chrom start end w of
        (cached, w1) \<Rightarrow>
          if (case cached of None \<Rightarrow> True | Some v \<Rightarrow> \<not> truthy v) then
            (case run_UCSC_liftover_tool e hg chrom start end w1 of
               (Inl message, w2) \<Rightarrow> (Inr (error_response message), w2)
             | (Inr result, w2) \<Rightarrow>
                 (case derive_output format pos (params req) result of
                    Inl ex \<Rightarrow> (Inl ex, add_liftover_to_redis hg chrom start end result w2)
                  | Inr derived \<Rightarrow>
                      (Inr \<lparr>body = JDict derived, status = 200\<rparr>,
                       add_liftover_to_redis hg chrom start end result w2)))
          else
            (case cached of
               Some (JDict result) \<Rightarrow>
                 (case derive_output format pos (params req) result of
                    Inl ex \<Rightarrow> (Inl ex, w1)
                  | Inr derived \<Rightarrow> (Inr \<lparr>body = JDict derived, status = 200\<rparr>, w1))
             | _ \<Rightarrow> (Inl AttributeError, w1)))"

definition run_liftover ::
  "env \<Rightarrow> request \<Rightarrow> string \<Rightarrow> world \<Rightarrow> (exn + response) \<times> world" where
  "run_liftover e req epoch_time w =
     (case exceeds_rate_limit epoch_time (remote_addr req) ''liftover: total'' w of
        (Inl ex, w1) \<Rightarrow> (Inl ex, w1)
      | (Inr True, w1) \<Rightarrow>
          (Inr (error_response
             (rate_limit_message (ceiling_text ''liftover: total'' @ '' liftover requests''))), w1)
      | (Inr False, w1) \<Rightarrow>
          (case map_of (params req) ''hg'' of
             None \<Rightarrow> (Inr (error_response hg_param_message), w1)
           | Some hg \<Rightarrow>
               if hg = [] \<or> map_of CHAIN_FILE_PATHS hg = None
               then (Inr (error_response hg_param_message), w1)
               else
                 (let format = (case map_of (params req) ''format'' of None \<Rightarrow> [] | Some f \<Rightarrow> f) in
                  if format = [] \<or> format \<notin> set VALID_FORMAT_VALUES
                  then (Inr (error_response format_param_message), w1)
                  else
                    (case map_of (params req) ''chrom'' of
                       None \<Rightarrow> (Inr (error_response (param_missing_message ''chrom'')), w1)
                     | Some chrom \<Rightarrow>
                         if chrom = [] then (Inr (error_response (param_missing_message ''chrom'')), w1)
                         else
                           (case liftover_coords format (params req) of
                              Inl (Inl ex) \<Rightarrow> (Inl ex, w1)
                            | Inl (Inr resp) \<Rightarrow> (Inr resp, w1)
                            | Inr (start, end, pos) \<Rightarrow>
                                lift_and_respond e req hg format chrom start end pos w1)))))"

section \<open>The test client\<close>

text \<open>
  \<open>DataProcessor.update_dataframe_with_scores\<close> of \<open>TestingDocker.py\<close>, up to the
  loop that blanks the offsets (the comparison columns it fills afterwards read the DS
  and DP columns and do not change them):
  \<^verbatim>\<open>
  df.at[index, 'DS_AG'] = round(float(score['DS_AG']), 2)
  df.at[index, 'DS_AL'] = round(float(score['DS_AL']), 2)
  df.at[index, 'DS_DG'] = round(float(score['DS_DG']), 2)
  df.at[index, 'DS_DL'] = round(float(score['DS_DL']), 2)
  df.at[index, 'DP_AG'] = score['DP_AG']
  df.at[index, 'DP_AL'] = score['DP_AL']
  df.at[index, 'DP_DG'] = score['DP_DG']
  df.at[index, 'DP_DL'] = score['DP_DL']
  ds_cols = ['DS_AG', 'DS_AL', 'DS_DG', 'DS_DL']
  dp_cols = ['DP_AG', 'DP_AL', 'DP_DG', 'DP_DL']
  for ds_col, dp_col in zip(ds_cols, dp_cols):
      if df.at[index, ds_col] == 0.00:
          df.at[index, dp_col] = np.nan
  \<close>
  The row \<open>index\<close> of the frame is a map from column names to cells. A cell holds a
  number, \<open>NaN\<close>, or a value of the score as it came. \<open>round_float\<close> stands for
  \<open>round(float(v), 2)\<close>: it gives a number cell or \<open>NaN\<close>, or raises; \<open>0\<close> of the
  number type is the float \<open>0.00\<close>.
\<close>

datatype ('n, 'v) cell = Float 'n | NaN | Obj 'v



fun store_ds ::
  "('v \<Rightarrow> exn + ('n, 'v) cell) \<Rightarrow> (string \<rightharpoonup> 'v) \<Rightarrow> string list
     \<Rightarrow> (string \<rightharpoonup> ('n, 'v) cell) \<Rightarrow> exn + (string \<rightharpoonup> ('n, 'v) cell)" where
  "store_ds round_float score [] row = Inr row"
| "store_ds round_float score (c # cs) row =
     (case score c of
        None \<Rightarrow> Inl (KeyError c)
      | Some v \<Rightarrow> bind_exn (round_float v) (\<lambda>x. store_ds round_float score cs (row(c \<mapsto> x))))"




section \<open>Example environments\<close>

text \<open>
  Concrete inputs for the examples below: a world with an empty backend that answers, a
  world whose backend never answers, a world where the client 1.2.3.4 has four live
  markers of the class "SpliceAI: computed"; an environment with nothing loaded, and one
  with a gene on chromosome 1 of GRCh38 and on chromosome 2 of GRCh37, two precomputed
  files for GRCh38 and a model that returns one score string.
\<close>

definition quiet_world :: world where
  "quiet_world = \<lparr>redis = [], backend_down = (\<lambda>n. False), calls = []\<rparr>"

definition dead_world :: world where
  "dead_world = \<lparr>redis = [], backend_down = (\<lambda>n. True), calls = []\<rparr>"

definition busy_world :: world where
  "busy_world =
     \<lparr>redis = [(''request 1.2.3.4 SpliceAI: computed: 1700000000.1'', JInt 1, Some 60),
                (''request 1.2.3.4 SpliceAI: computed: 1700000001.2'', JInt 1, Some 60),
                (''request 1.2.3.4 SpliceAI: computed: 1700000002.3'', JInt 1, Some 60),
                (''request 1.2.3.4 SpliceAI: computed: 1700000003.4'', JInt 1, Some 60)],
      backend_down = (\<lambda>n. False), calls = []\<rparr>"

definition empty_env :: env where
  "empty_env =
     \<lparr>annotation37 = (\<lambda>chrom. []),
      annotation38 = (\<lambda>chrom. []),
      SPLICEAI_CACHE_FILES = (\<lambda>key. None),
      get_delta_scores = (\<lambda>v genome_version d m. Inr []),
      liftOver = (\<lambda>chain input. Inl ''liftOver: not found'')\<rparr>"

definition example_env :: env where
  "example_env =
     \<lparr>annotation37 =
        (\<lambda>chrom. if chrom = ''2'' then [\<lparr>TX_START = 1, TX_END = 1000, NAME = ''GENE2---ENST2''\<rparr>]
                  else []),
      annotation38 =
        (\<lambda>chrom. if chrom = ''1'' then [\<lparr>TX_START = 1, TX_END = 1000, NAME = ''GENE1---ENST1''\<rparr>]
                  else []),
      SPLICEAI_CACHE_FILES =
        (\<lambda>key. if key = (Some ''raw'', ''snv'', Some ''hg38'')
                then Some (\<lambda>chrom lo hi.
                       Inr [''1'' @ [CHR 0x09] @ ''100'' @ [CHR 0x09] @ ''.'' @ [CHR 0x09] @ ''C''
                            @ [CHR 0x09] @ ''G'' @ [CHR 0x09] @ ''.'' @ [CHR 0x09] @ ''.'' @ [CHR 0x09]
                            @ ''SpliceAI=G|GENE1|0.00|0.00|0.00|0.00|-1|-37|-48|-37''])
                else if key = (Some ''raw'', ''indel'', Some ''hg38'')
                then Some (\<lambda>chrom lo hi. Inr [])
                else None),
      get_delta_scores =
        (\<lambda>v genome_version d m. Inr [''A|GENE1|0.00|0.00|0.12|0.00|-1|-37|-48|-37'']),
      liftOver =
        (\<lambda>chain input.
           Inr (''chr8'' @ [CHR 0x09] @ ''139288371'' @ [CHR 0x09] @ ''139288372'' @ [CHR 0x09]
                @ ''.'' @ [CHR 0x09] @ ''0'' @ [CHR 0x09] @ ''-'' @ [CHR 0x0A], []))\<rparr>"

section \<open>Properties of the variant parser\<close>

lemma int_of_digits_snoc: "int_of_digits (s @ [c]) = 10 * int_of_digits s + digit_val c"
  by (simp add: int_of_digits_def)

lemma digit_val_range: "is_digit c \<Longrightarrow> 0 \<le> digit_val c \<and> digit_val c \<le> 9"
  by (auto simp: is_digit_def digit_val_def)

lemma int_of_digits_bound:
  "list_all is_digit s \<Longrightarrow> 0 \<le> int_of_digits s \<and> int_of_digits s < 10 ^ length s"
proof (induction s rule: rev_induct)
  case Nil
  then show ?case by (simp add: int_of_digits_def)
next
  case (snoc c s)
  then have "0 \<le> int_of_digits s \<and> int_of_digits s < 10 ^ length s"
    and "0 \<le> digit_val c \<and> digit_val c \<le> 9"
    by (simp_all add: digit_val_range)
  then show ?case by (simp add: int_of_digits_snoc)
qed

lemma list_all_takeWhile: "list_all P (takeWhile P xs)"
  by (induction xs) auto

lemma match_from_chrom_shape:
  assumes "match_from_chrom s = Some (chrom, pos, ref, alt)"
  shows "chrom \<noteq> [] \<and> length chrom \<le> 2 \<and> list_all chrom_class chrom
       \<and> pos \<noteq> [] \<and> length pos \<le> 9 \<and> list_all is_digit pos
       \<and> ref \<noteq> [] \<and> list_all base_class ref
       \<and> alt \<noteq> [] \<and> list_all base_class alt"
proof -
  have len: "length (takeWhile chrom_class (take 2 s)) \<le> 2"
    by (rule order_trans [OF length_takeWhile_le]) simp
  from assms show ?thesis
    using len by (auto simp: match_from_chrom_def Let_def list_all_takeWhile split: if_splits)
qed

lemma VARIANT_RE_match_shape:
  assumes "VARIANT_RE_match s = Some (chrom, pos, ref, alt)"
  shows "chrom \<noteq> [] \<and> length chrom \<le> 2 \<and> list_all chrom_class chrom
       \<and> pos \<noteq> [] \<and> length pos \<le> 9 \<and> list_all is_digit pos
       \<and> ref \<noteq> [] \<and> list_all base_class ref
       \<and> alt \<noteq> [] \<and> list_all base_class alt"
proof -
  from assms obtain t where "match_from_chrom t = Some (chrom, pos, ref, alt)"
    by (auto simp: VARIANT_RE_match_def split: if_splits option.splits)
  then show ?thesis by (rule match_from_chrom_shape)
qed

lemma pos_below_10_9:
  assumes "list_all is_digit pos" and "length pos \<le> 9"
  shows "0 \<le> int_of_digits pos \<and> int_of_digits pos < 10 ^ 9"
proof -
  have "0 \<le> int_of_digits pos \<and> int_of_digits pos < 10 ^ length pos"
    using assms(1) by (rule int_of_digits_bound)
  moreover have "(10::int) ^ length pos \<le> 10 ^ 9"
    using assms(2) by (intro power_increasing) simp_all
  ultimately show ?thesis by linarith
qed

lemma parse_variant_cases:
  "parse_variant s = Inl (ValueError (''Unable to parse variant: '' @ s))
   \<or> (\<exists>chrom pos ref alt. parse_variant s = Inr (chrom, pos, ref, alt)
         \<and> chrom \<noteq> [] \<and> length chrom \<le> 2 \<and> list_all chrom_class chrom
         \<and> 0 \<le> pos \<and> pos < 10 ^ 9
         \<and> ref \<noteq> [] \<and> list_all base_class ref
         \<and> alt \<noteq> [] \<and> list_all base_class alt)"
proof (cases "VARIANT_RE_match s")
  case None
  then show ?thesis by (simp add: parse_variant_def)
next
  case (Some m)
  obtain chrom pos ref alt where m: "m = (chrom, pos, ref, alt)"
    by (cases m) auto
  from Some m have shape: "chrom \<noteq> [] \<and> length chrom \<le> 2 \<and> list_all chrom_class chrom
       \<and> pos \<noteq> [] \<and> length pos \<le> 9 \<and> list_all is_digit pos
       \<and> ref \<noteq> [] \<and> list_all base_class ref
       \<and> alt \<noteq> [] \<and> list_all base_class alt"
    using VARIANT_RE_match_shape [of s chrom pos ref alt] by simp
  then have "0 \<le> int_of_digits pos \<and> int_of_digits pos < 10 ^ 9"
    using pos_below_10_9 by blast
  moreover have "parse_variant s = Inr (chrom, int_of_digits pos, ref, alt)"
    using Some m by (simp add: parse_variant_def)
  ultimately show ?thesis using shape by simp
qed

lemma chrom_class_not_sep: "chrom_class c \<Longrightarrow> \<not> sep_class c \<and> c \<noteq> CHR ''c''"
  by (auto simp: chrom_class_def sep_class_def is_space_def)

lemma match_from_chrom_not_class: "\<not> chrom_class c \<Longrightarrow> match_from_chrom (c # rest) = None"
  by (simp add: match_from_chrom_def Let_def)

lemma chr_then_other_fails:
  assumes "\<not> chrom_class c"
  shows "parse_variant (''chr'' @ c # rest)
         = Inl (ValueError (''Unable to parse variant: '' @ ''chr'' @ c # rest))"
proof -
  have a: "match_from_chrom (c # rest) = None"
    using assms by (rule match_from_chrom_not_class)
  have b: "match_from_chrom (''chr'' @ c # rest) = None"
    by (simp add: match_from_chrom_not_class chrom_class_def)
  show ?thesis
    using a b by (simp add: parse_variant_def VARIANT_RE_match_def)
qed

lemma token_accepted:
  assumes "tok \<noteq> []" "length tok \<le> 2" "list_all chrom_class tok"
  shows "parse_variant (tok @ ''-1-A-C'') = Inr (tok, 1, ''A'', ''C'')"
proof -
  have nsep: "\<not> chrom_class (CHR ''-'')" by (simp add: chrom_class_def)
  have tw: "takeWhile chrom_class (take 2 (tok @ ''-1-A-C'')) = tok"
    using assms nsep by (cases tok; cases "tl tok") (auto simp: takeWhile_eq_all_conv)
  have m: "match_from_chrom (tok @ ''-1-A-C'') = Some (tok, ''1'', ''A'', ''C'')"
    unfolding match_from_chrom_def tw
    using assms(1)
    by (simp add: Let_def sep_class_def is_digit_def base_class_def sep_gt_class_def is_space_def)
  have nc: "take 3 (tok @ ''-1-A-C'') \<noteq> ''chr''"
    using assms chrom_class_not_sep by (cases tok) auto
  show ?thesis
    using nc by (simp add: parse_variant_def VARIANT_RE_match_def m int_of_digits_def digit_val_def)
qed

section \<open>Rendering of integers\<close>









section \<open>Traces\<close>

lemma only_calls_refl: "only_calls P w w"
  by (simp add: only_calls_def new_calls_def)

lemma only_calls_append:
  "only_calls P w w' \<longleftrightarrow> (\<exists>xs. calls w' = calls w @ xs \<and> list_all P xs)"
proof
  assume "only_calls P w w'"
  then have "calls w' = calls w @ new_calls w w'" and "list_all P (new_calls w w')"
    unfolding only_calls_def new_calls_def
    by (metis append_take_drop_id, simp)
  then show "\<exists>xs. calls w' = calls w @ xs \<and> list_all P xs" by blast
next
  assume "\<exists>xs. calls w' = calls w @ xs \<and> list_all P xs"
  then show "only_calls P w w'"
    by (auto simp: only_calls_def new_calls_def)
qed

lemma only_calls_trans:
  "only_calls P w w1 \<Longrightarrow> only_calls P w1 w2 \<Longrightarrow> only_calls P w w2"
  unfolding only_calls_append by auto

lemma only_calls_mono:
  "only_calls P w w' \<Longrightarrow> (\<And>c. P c \<Longrightarrow> Q c) \<Longrightarrow> only_calls Q w w'"
  unfolding only_calls_append by (auto simp: list_all_iff)

lemma only_calls_called: "P c \<Longrightarrow> calls w' = calls (called c w) \<Longrightarrow> only_calls P w w'"
  unfolding only_calls_append by (simp add: called_def)

lemma new_calls_append: "calls w' = calls w @ xs \<Longrightarrow> new_calls w w' = xs"
  by (simp add: new_calls_def)

lemma exceeds_rate_limit_calls:
  "only_calls is_limiter_call w (snd (exceeds_rate_limit epoch_time user_id request_type w))"
  unfolding only_calls_append
  by (auto simp: exceeds_rate_limit_def redis_keys_def redis_set_def redis_expire_def
      called_def Let_def split: option.splits)

lemma compute_scores_calls:
  "only_calls (\<lambda>c. is_limiter_call c \<or> is_computation c) w
     (snd (compute_scores e addr epoch_time variant genome_version chrom pos ref alt
             spliceai_distance spliceai_mask w))"
proof -
  obtain r w1 where x: "exceeds_rate_limit epoch_time addr ''SpliceAI: computed'' w = (r, w1)"
    by (cases "exceeds_rate_limit epoch_time addr ''SpliceAI: computed'' w") auto
  have "only_calls is_limiter_call w w1"
    using exceeds_rate_limit_calls [of w epoch_time addr "''SpliceAI: computed''"] x by simp
  then obtain xs where xs: "calls w1 = calls w @ xs" "list_all is_limiter_call xs"
    unfolding only_calls_append by blast
  then have l: "list_all (\<lambda>c. is_limiter_call c \<or> is_computation c) xs"
    by (simp add: list_all_iff)
  show ?thesis
    unfolding only_calls_append compute_scores_def x
    using xs(1) l
    by (auto simp: called_def split: sum.splits bool.splits)
qed

lemma lookup_precomputed_calls:
  "calls (snd (lookup_precomputed e chrom pos ref alt genome_version spliceai_mask w))
   = calls w @ (case SPLICEAI_CACHE_FILES e (precomputed_key spliceai_mask ref alt genome_version) of
                  None \<Rightarrow> []
                | Some fetch \<Rightarrow> [TabixFetch (precomputed_key spliceai_mask ref alt genome_version)
                                   chrom (pos - 1) (pos + 1)])"
  by (auto simp: lookup_precomputed_def Let_def called_def split: option.splits sum.splits prod.splits)

lemma resolve_scores_calls:
  "\<exists>rest. calls (snd (resolve_scores e addr epoch_time variant genome_version chrom pos ref alt
                        spliceai_distance spliceai_mask use_precomputed_scores w))
     = calls w
       @ (if precomputed_eligible ref alt spliceai_distance use_precomputed_scores
          then (case SPLICEAI_CACHE_FILES e (precomputed_key spliceai_mask ref alt genome_version) of
                  None \<Rightarrow> []
                | Some fetch \<Rightarrow> [TabixFetch (precomputed_key spliceai_mask ref alt genome_version)
                                   chrom (pos - 1) (pos + 1)])
          else [])
       @ rest
     \<and> list_all (\<lambda>c. is_limiter_call c \<or> is_computation c) rest"
proof -
  define lk where "lk = (if precomputed_eligible ref alt spliceai_distance use_precomputed_scores
            then lookup_precomputed e chrom pos ref alt genome_version spliceai_mask w
            else (([], None), w))"
  obtain scores source w1 where lk_eq: "lk = ((scores, source), w1)"
    by (cases lk) auto
  have c1: "calls w1 = calls w
       @ (if precomputed_eligible ref alt spliceai_distance use_precomputed_scores
          then (case SPLICEAI_CACHE_FILES e (precomputed_key spliceai_mask ref alt genome_version) of
                  None \<Rightarrow> []
                | Some fetch \<Rightarrow> [TabixFetch (precomputed_key spliceai_mask ref alt genome_version)
                                   chrom (pos - 1) (pos + 1)])
          else [])"
    using lk_eq lookup_precomputed_calls [of e chrom pos ref alt genome_version spliceai_mask w]
    by (auto simp: lk_def split: if_splits)
  have r: "resolve_scores e addr epoch_time variant genome_version chrom pos ref alt
                        spliceai_distance spliceai_mask use_precomputed_scores w
     = (if scores = []
          then compute_scores e addr epoch_time variant genome_version chrom pos ref alt
                 spliceai_distance spliceai_mask w1
          else (score_dict variant genome_version chrom pos ref alt scores source, w1))"
    using lk_eq by (simp add: resolve_scores_def lk_def)
  show ?thesis
  proof (cases "scores = []")
    case True
    from compute_scores_calls [of w1 e addr epoch_time variant genome_version chrom pos ref alt
             spliceai_distance spliceai_mask]
    obtain rest where "calls (snd (compute_scores e addr epoch_time variant genome_version chrom pos ref alt
             spliceai_distance spliceai_mask w1)) = calls w1 @ rest"
      "list_all (\<lambda>c. is_limiter_call c \<or> is_computation c) rest"
      unfolding only_calls_append by blast
    then show ?thesis using True r c1 by auto
  next
    case False
    then show ?thesis using r c1 by auto
  qed
qed

lemma exceeds_rate_limit_up:
  assumes cls: "map_of RATE_LIMIT_REQUESTS_PER_USER_PER_MINUTE request_type = Some ceiling"
    and up: "\<And>n. \<not> backend_down w n"
  shows "exceeds_rate_limit epoch_time user_id request_type w =
    (if ceiling \<le> length (live_markers w user_id request_type)
     then (Inr True, called (RedisKeys (redis_key_prefix user_id request_type @ ''*'')) w)
     else (Inr False,
           called (RedisExpire (redis_key_prefix user_id request_type @ '': '' @ epoch_time) 60)
            (called (RedisSet (redis_key_prefix user_id request_type @ '': '' @ epoch_time) (JInt 1))
              (called (RedisKeys (redis_key_prefix user_id request_type @ ''*'')) w))
            \<lparr>redis := AList.update (redis_key_prefix user_id request_type @ '': '' @ epoch_time)
                        (JInt 1, Some 60) (redis w)\<rparr>))"
  using cls up
  by (simp add: exceeds_rate_limit_def redis_keys_def redis_set_def redis_expire_def raises_def
      called_def live_markers_def RATE_LIMIT_WINDOW_SIZE_IN_MINUTES_def Let_def update_conv'
      AList.update_conv')

section \<open>Successful results of the pipeline\<close>






section \<open>The columns written by the test client\<close>

lemma store_ds_result:
  "store_ds round_float score cs row = Inr row'
   \<Longrightarrow> (\<forall>c. c \<notin> set cs \<longrightarrow> row' c = row c)
     \<and> (\<forall>c \<in> set cs. \<exists>v. score c = Some v)"
proof (induction cs arbitrary: row)
  case Nil
  then show ?case by simp
next
  case (Cons c cs)
  then show ?case
    by (fastforce simp: bind_exn_def split: option.splits sum.splits)
qed




section \<open>Writes to the result cache\<close>

lemma limiter_not_store: "is_limiter_call c \<Longrightarrow> \<not> is_cache_store c"
  by (cases c) (auto elim: is_limiter_call.elims)

lemma process_variant_calls:
  "only_calls (\<lambda>c. \<not> is_cache_store c) w
     (snd (process_variant e addr epoch_time variant genome_version d m p w))"
proof -
  have rs: "only_calls (\<lambda>c. \<not> is_cache_store c) w
     (snd (resolve_scores e addr epoch_time variant genome_version chrom pos ref alt d m p w))"
    for chrom pos ref alt
  proof -
    obtain rest where c: "calls (snd (resolve_scores e addr epoch_time variant genome_version chrom pos ref alt d m p w))
     = calls w
       @ (if precomputed_eligible ref alt d p
          then (case SPLICEAI_CACHE_FILES e (precomputed_key m ref alt genome_version) of
                  None \<Rightarrow> []
                | Some fetch \<Rightarrow> [TabixFetch (precomputed_key m ref alt genome_version)
                                   chrom (pos - 1) (pos + 1)])
          else [])
       @ rest"
      and l: "list_all (\<lambda>c. is_limiter_call c \<or> is_computation c) rest"
      using resolve_scores_calls by blast
    have "\<not> is_cache_store c" if "is_limiter_call c \<or> is_computation c" for c
      using that limiter_not_store by (cases c) auto
    then have "list_all (\<lambda>c. \<not> is_cache_store c) rest"
      using l by (auto simp: list_all_iff)
    then show ?thesis
      unfolding only_calls_append using c
      by (auto split: option.splits)
  qed
  show ?thesis
    using rs
    by (auto simp: process_variant_def Let_def only_calls_refl
             split: sum.splits exn.splits prod.splits option.splits)
qed

lemma get_spliceai_from_redis_calls:
  "calls (snd (get_spliceai_from_redis variant genome_version d m p w))
   = calls w @ [RedisGet (get_spliceai_redis_key variant genome_version d m p)]"
  by (auto simp: get_spliceai_from_redis_def redis_get_def called_def split: option.splits)

lemma add_spliceai_to_redis_calls:
  "calls (add_spliceai_to_redis variant genome_version d m p results w)
   = calls w @ [RedisSet (get_spliceai_redis_key variant genome_version d m p) (JDict results)]"
  by (auto simp: add_spliceai_to_redis_def redis_set_def called_def)

lemma no_store_append:
  "only_calls (\<lambda>c. \<not> is_cache_store c) w w1 \<Longrightarrow> calls w2 = calls w1 @ xs
   \<Longrightarrow> (\<exists>c\<in>set (new_calls w w2). is_cache_store c) \<longleftrightarrow> (\<exists>c\<in>set xs. is_cache_store c)"
  unfolding only_calls_append by (auto simp: new_calls_def list_all_iff)

lemma cached_or_processed_trace:
  assumes g: "get_spliceai_from_redis variant genome_version d m p w = (cached, w1)"
  shows "\<exists>xs. calls (snd (cached_or_processed e req epoch_time duration variant
                          genome_version d m p w)) = calls w @ xs
          \<and> ((\<exists>c\<in>set xs. is_cache_store c)
              \<longleftrightarrow> ((case cached of None \<Rightarrow> True | Some v \<Rightarrow> \<not> truthy v)
                   \<and> (\<exists>results w2. process_variant e (remote_addr req) epoch_time variant
                                       genome_version d m p w1 = (Inr results, w2)
                                    \<and> map_of results ''error'' = None)))"
proof -
  have c1: "calls w1 = calls w @ [RedisGet (get_spliceai_redis_key variant genome_version d m p)]"
    using get_spliceai_from_redis_calls [of variant genome_version d m p w] g by simp
  show ?thesis
  proof (cases "case cached of None \<Rightarrow> True | Some v \<Rightarrow> \<not> truthy v")
    case False
    then have "calls (snd (cached_or_processed e req epoch_time duration variant
                                      genome_version d m p w)) = calls w1"
      using g by (auto simp: cached_or_processed_def split: option.splits json.splits sum.splits)
    then show ?thesis using c1 False by simp
  next
    case True
    obtain out w2 where pv: "process_variant e (remote_addr req) epoch_time variant genome_version
                                  d m p w1 = (out, w2)"
      by (cases "process_variant e (remote_addr req) epoch_time variant genome_version d m p w1") auto
    have "only_calls (\<lambda>c. \<not> is_cache_store c) w1 w2"
      using process_variant_calls [of w1 e "remote_addr req" epoch_time variant genome_version d m p] pv
      by simp
    then obtain ys where ys: "calls w2 = calls w1 @ ys" "list_all (\<lambda>c. \<not> is_cache_store c) ys"
      unfolding only_calls_append by blast
    then have nys: "\<not> (\<exists>c\<in>set ys. is_cache_store c)"
      by (simp add: list_all_iff)
    show ?thesis
    proof (cases out)
      case (Inl ex)
      then have "calls (snd (cached_or_processed e req epoch_time duration variant
                                      genome_version d m p w)) = calls w2"
        using g pv True by (simp add: cached_or_processed_def)
      then have "calls (snd (cached_or_processed e req epoch_time duration variant
                                      genome_version d m p w))
                 = calls w @ (RedisGet (get_spliceai_redis_key variant genome_version d m p) # ys)"
        using ys(1) c1 by simp
      moreover have "\<not> (\<exists>c\<in>set (RedisGet (get_spliceai_redis_key variant genome_version d m p) # ys).
                         is_cache_store c)"
        using nys by simp
      ultimately show ?thesis using Inl pv by auto
    next
      case (Inr results)
      show ?thesis
      proof (cases "map_of results ''error'' = None")
        case False
        then have "calls (snd (cached_or_processed e req epoch_time duration variant
                                      genome_version d m p w)) = calls w2"
          using g pv True Inr by (auto simp: cached_or_processed_def)
        then have "calls (snd (cached_or_processed e req epoch_time duration variant
                                      genome_version d m p w))
                 = calls w @ (RedisGet (get_spliceai_redis_key variant genome_version d m p) # ys)"
          using ys(1) c1 by simp
        moreover have "\<not> (\<exists>c\<in>set (RedisGet (get_spliceai_redis_key variant genome_version d m p) # ys).
                         is_cache_store c)"
          using nys by simp
        ultimately show ?thesis using Inr pv False by auto
      next
        case ok: True
        then have "calls (snd (cached_or_processed e req epoch_time duration variant
                                      genome_version d m p w))
                   = calls w2 @ [RedisSet (get_spliceai_redis_key variant genome_version d m p) (JDict results)]"
          using g pv True Inr by (simp add: cached_or_processed_def add_spliceai_to_redis_calls)
        then have "calls (snd (cached_or_processed e req epoch_time duration variant
                                      genome_version d m p w))
                 = calls w @ (RedisGet (get_spliceai_redis_key variant genome_version d m p) # ys
                     @ [RedisSet (get_spliceai_redis_key variant genome_version d m p) (JDict results)])"
          using ys(1) c1 by simp
        moreover have "\<exists>c\<in>set (RedisGet (get_spliceai_redis_key variant genome_version d m p) # ys
                     @ [RedisSet (get_spliceai_redis_key variant genome_version d m p) (JDict results)]).
                         is_cache_store c"
          by simp
        ultimately show ?thesis using Inr pv ok True by blast
      qed
    qed
  qed
qed

section \<open>The checks of the parameters\<close>



section \<open>The claims about the variant parser\<close>

text \<open>
  C3, as the code has it. For every input string the parser either fails with the
  \<open>ValueError\<close> "Unable to parse variant" and returns nothing, or returns
  (chrom, pos, ref, alt) where chrom is one or two characters among \<open>0-9 X Y M T t\<close>,
  pos is an integer from 0 up to 999999999, and ref and alt are non-empty sequences over
  \<open>A C G T\<close>. The chromosome is not compared with a list of names and its case is not
  folded: every token of one or two characters of the class is accepted (so \<open>99\<close> and
  \<open>TT\<close> are), and after \<open>chr\<close> a character outside the class, such as a lowercase
  \<open>x\<close>, makes the parser fail.
\<close>

theorem parse_variant_outcome:
  "(parse_variant s = Inl (ValueError (''Unable to parse variant: '' @ s))
    \<or> (\<exists>chrom pos ref alt. parse_variant s = Inr (chrom, pos, ref, alt)
          \<and> chrom \<noteq> [] \<and> length chrom \<le> 2 \<and> list_all chrom_class chrom
          \<and> 0 \<le> pos \<and> pos < 10 ^ 9
          \<and> ref \<noteq> [] \<and> list_all base_class ref
          \<and> alt \<noteq> [] \<and> list_all base_class alt))
   \<and> (tok \<noteq> [] \<and> length tok \<le> 2 \<and> list_all chrom_class tok
        \<longrightarrow> parse_variant (tok @ ''-1-A-C'') = Inr (tok, 1, ''A'', ''C''))
   \<and> (\<not> chrom_class c
        \<longrightarrow> parse_variant (''chr'' @ c # rest)
            = Inl (ValueError (''Unable to parse variant: '' @ ''chr'' @ c # rest)))"
proof (intro conjI impI)
  show "parse_variant s = Inl (ValueError (''Unable to parse variant: '' @ s))
    \<or> (\<exists>chrom pos ref alt. parse_variant s = Inr (chrom, pos, ref, alt)
          \<and> chrom \<noteq> [] \<and> length chrom \<le> 2 \<and> list_all chrom_class chrom
          \<and> 0 \<le> pos \<and> pos < 10 ^ 9
          \<and> ref \<noteq> [] \<and> list_all base_class ref
          \<and> alt \<noteq> [] \<and> list_all base_class alt)"
    by (rule parse_variant_cases)
next
  assume "tok \<noteq> [] \<and> length tok \<le> 2 \<and> list_all chrom_class tok"
  then show "parse_variant (tok @ ''-1-A-C'') = Inr (tok, 1, ''A'', ''C'')"
    using token_accepted by blast
next
  assume "\<not> chrom_class c"
  then show "parse_variant (''chr'' @ c # rest)
            = Inl (ValueError (''Unable to parse variant: '' @ ''chr'' @ c # rest))"
    by (rule chr_then_other_fails)
qed

theorem parse_variant_outcome_witness:
  "parse_variant ''chr8-140300615-C-G'' = Inr (''8'', 140300615, ''C'', ''G'')
   \<and> parse_variant ''TT-1-A-C'' = Inr (''TT'', 1, ''A'', ''C'')
   \<and> parse_variant ''chry 5 A>C'' = Inl (ValueError ''Unable to parse variant: chry 5 A>C'')"
proof -
  have a: "parse_variant ''chr8-140300615-C-G'' = Inr (''8'', 140300615, ''C'', ''G'')"
    by code_simp
  have b: "''TT'' \<noteq> [] \<and> length ''TT'' \<le> 2 \<and> list_all chrom_class ''TT''"
    by (simp add: chrom_class_def)
  have c: "\<not> chrom_class (CHR ''y'')"
    by (simp add: chrom_class_def)
  from parse_variant_outcome [of "''chr8-140300615-C-G''" "''TT''" "CHR ''y''" "'' 5 A>C''"] b c
  have "parse_variant (''TT'' @ ''-1-A-C'') = Inr (''TT'', 1, ''A'', ''C'')"
    and "parse_variant (''chr'' @ CHR ''y'' # '' 5 A>C'')
            = Inl (ValueError (''Unable to parse variant: '' @ ''chr'' @ CHR ''y'' # '' 5 A>C''))"
    by blast+
  with a show ?thesis by simp
qed

text \<open>
  C3 as the specification states it fails: the token \<open>99\<close> is accepted, the lowercase
  \<open>chrx\<close> is rejected, and the position 0 is accepted.
\<close>

theorem parse_variant_counterexample:
  "parse_variant ''99-1-A-C'' = Inr (''99'', 1, ''A'', ''C'')
   \<and> parse_variant ''chrx-1-A-C'' = Inl (ValueError ''Unable to parse variant: chrx-1-A-C'')
   \<and> parse_variant ''1-0-A-C'' = Inr (''1'', 0, ''A'', ''C'')"
  by code_simp

section \<open>The claims about the rate limiter\<close>

text \<open>
  C4. For every client identity and every recognized request class, with a backend that
  answers: when the number of live markers of the pair is at least the ceiling of the
  class, the admission check returns \<open>True\<close> (the request is denied) and the content of
  the backend is unchanged; otherwise it returns \<open>False\<close> (the request is admitted), the
  marker of this request is in the backend with a time to live of the window size (one
  minute, 60 seconds), and every other key is as before.
\<close>

theorem admission_check:
  assumes "map_of RATE_LIMIT_REQUESTS_PER_USER_PER_MINUTE request_type = Some ceiling"
    and "\<forall>n. \<not> backend_down w n"
  shows "(ceiling \<le> length (live_markers w user_id request_type)
          \<longrightarrow> fst (exceeds_rate_limit epoch_time user_id request_type w) = Inr True
              \<and> redis (snd (exceeds_rate_limit epoch_time user_id request_type w)) = redis w)
       \<and> (length (live_markers w user_id request_type) < ceiling
          \<longrightarrow> fst (exceeds_rate_limit epoch_time user_id request_type w) = Inr False
              \<and> map_of (redis (snd (exceeds_rate_limit epoch_time user_id request_type w)))
                   (redis_key_prefix user_id request_type @ '': '' @ epoch_time)
                 = Some (JInt 1, Some (RATE_LIMIT_WINDOW_SIZE_IN_MINUTES * 60))
              \<and> (\<forall>k. k \<noteq> redis_key_prefix user_id request_type @ '': '' @ epoch_time
                    \<longrightarrow> map_of (redis (snd (exceeds_rate_limit epoch_time user_id request_type w))) k
                        = map_of (redis w) k))"
  using assms
  by (simp add: exceeds_rate_limit_up called_def AList.update_conv' RATE_LIMIT_WINDOW_SIZE_IN_MINUTES_def)

theorem admission_check_witness:
  "fst (exceeds_rate_limit ''1700000004.5'' ''1.2.3.4'' ''SpliceAI: computed'' busy_world) = Inr True
   \<and> redis (snd (exceeds_rate_limit ''1700000004.5'' ''1.2.3.4'' ''SpliceAI: computed'' busy_world))
     = redis busy_world
   \<and> fst (exceeds_rate_limit ''1700000004.5'' ''1.2.3.4'' ''SpliceAI: computed'' quiet_world) = Inr False
   \<and> map_of (redis (snd (exceeds_rate_limit ''1700000004.5'' ''1.2.3.4'' ''SpliceAI: computed'' quiet_world)))
        ''request 1.2.3.4 SpliceAI: computed: 1700000004.5''
     = Some (JInt 1, Some 60)"
proof -
  have cls: "map_of RATE_LIMIT_REQUESTS_PER_USER_PER_MINUTE ''SpliceAI: computed'' = Some 4"
    by (simp add: RATE_LIMIT_REQUESTS_PER_USER_PER_MINUTE_def)
  have busy: "\<forall>n. \<not> backend_down busy_world n" and quiet: "\<forall>n. \<not> backend_down quiet_world n"
    by (simp_all add: busy_world_def quiet_world_def)
  have n4: "4 \<le> length (live_markers busy_world ''1.2.3.4'' ''SpliceAI: computed'')"
    by (simp add: live_markers_def busy_world_def redis_key_prefix_def)
  have n0: "length (live_markers quiet_world ''1.2.3.4'' ''SpliceAI: computed'') < 4"
    by (simp add: live_markers_def quiet_world_def)
  show ?thesis
    using admission_check [OF cls busy, of "''1.2.3.4''" "''1700000004.5''"]
      admission_check [OF cls quiet, of "''1.2.3.4''" "''1700000004.5''"] n4 n0
    by (simp add: redis_key_prefix_def RATE_LIMIT_WINDOW_SIZE_IN_MINUTES_def)
qed

text \<open>
  C9. For every client identity and every recognized request class: when the backend
  raises at the count of the markers, or the count is below the ceiling and the backend
  raises at the recording of the marker (the \<open>set\<close> or the \<open>expire\<close>), the admission
  check returns \<open>False\<close> and raises nothing: the request is admitted. So with a backend
  that never answers, every request of every class is admitted.
\<close>

theorem fail_open:
  assumes "map_of RATE_LIMIT_REQUESTS_PER_USER_PER_MINUTE request_type = Some ceiling"
  shows "(backend_down w (length (calls w))
          \<longrightarrow> fst (exceeds_rate_limit epoch_time user_id request_type w) = Inr False)
       \<and> (\<not> backend_down w (length (calls w))
           \<and> length (live_markers w user_id request_type) < ceiling
           \<and> (backend_down w (Suc (length (calls w))) \<or> backend_down w (Suc (Suc (length (calls w)))))
          \<longrightarrow> fst (exceeds_rate_limit epoch_time user_id request_type w) = Inr False)
       \<and> ((\<forall>n. backend_down w n)
          \<longrightarrow> fst (exceeds_rate_limit epoch_time user_id request_type w) = Inr False)"
  using assms
  by (auto simp add: exceeds_rate_limit_def redis_keys_def redis_set_def redis_expire_def raises_def
      called_def live_markers_def RATE_LIMIT_WINDOW_SIZE_IN_MINUTES_def Let_def split: prod.splits sum.splits)

theorem fail_open_witness:
  "fst (exceeds_rate_limit ''1700000004.5'' ''1.2.3.4'' ''SpliceAI: computed'' dead_world) = Inr False
   \<and> fst (exceeds_rate_limit ''1700000004.5'' ''1.2.3.4'' ''SpliceAI: total'' dead_world) = Inr False
   \<and> fst (exceeds_rate_limit ''1700000004.5'' ''1.2.3.4'' ''liftover: total'' dead_world) = Inr False"
proof -
  have cls: "map_of RATE_LIMIT_REQUESTS_PER_USER_PER_MINUTE ''SpliceAI: computed'' = Some 4"
    "map_of RATE_LIMIT_REQUESTS_PER_USER_PER_MINUTE ''SpliceAI: total'' = Some 20"
    "map_of RATE_LIMIT_REQUESTS_PER_USER_PER_MINUTE ''liftover: total'' = Some 12"
    by (simp_all add: RATE_LIMIT_REQUESTS_PER_USER_PER_MINUTE_def)
  have dead: "\<forall>n. backend_down dead_world n"
    by (simp add: dead_world_def)
  show ?thesis
    using fail_open [OF cls(1), of dead_world "''1700000004.5''" "''1.2.3.4''"]
      fail_open [OF cls(2), of dead_world "''1700000004.5''" "''1.2.3.4''"]
      fail_open [OF cls(3), of dead_world "''1700000004.5''" "''1.2.3.4''"] dead
    by blast
qed

section \<open>The claims about the scoring pipeline\<close>

text \<open>
  C8. For every variant that parses with a reference allele and an alternate allele both
  longer than one base, \<open>process_variant\<close> returns the complex-indel error and leaves
  the world as it was: it makes no call at all, so neither a precomputed file is read nor
  the model is called.
\<close>

theorem complex_indel_rejected:
  assumes "parse_variant variant = Inr (chrom, pos, ref, alt)"
    and "1 < length ref" and "1 < length alt"
  shows "process_variant e addr epoch_time variant genome_version d m p w
         = (Inr (error_dict variant (complex_indel_message chrom pos ref alt)), w)
       \<and> new_calls w (snd (process_variant e addr epoch_time variant genome_version d m p w)) = []"
  using assms by (simp add: process_variant_def new_calls_def)

theorem complex_indel_rejected_witness:
  "process_variant example_env ''1.2.3.4'' ''1700000004.5'' ''chr1:100 AC>GT'' ''38'' 50 0 1 quiet_world
   = (Inr [(''variant'', JStr ''chr1:100 AC>GT''),
           (''error'', JStr ''ERROR: SpliceAI does not currently support complex InDels like 1-100-AC-GT'')],
      quiet_world)
   \<and> new_calls quiet_world
        (snd (process_variant example_env ''1.2.3.4'' ''1700000004.5'' ''chr1:100 AC>GT'' ''38'' 50 0 1 quiet_world))
     = []"
proof -
  have p: "parse_variant ''chr1:100 AC>GT'' = Inr (''1'', 100, ''AC'', ''GT'')"
    by code_simp
  have m: "complex_indel_message ''1'' 100 ''AC'' ''GT''
           = ''ERROR: SpliceAI does not currently support complex InDels like 1-100-AC-GT''"
    by (simp add: complex_indel_message_def variant_text_def str_int_def digits_of_nat.simps digit_char_def)
  show ?thesis
    using complex_indel_rejected [OF p, of example_env "''1.2.3.4''" "''1700000004.5''" "''38''" 50 0 1 quiet_world]
    by (simp add: m error_dict_def new_calls_def)
qed

text \<open>
  C5, as the code has it. For every parsed variant that is not a complex indel (the
  complex-indel check comes first) and whose position no interval of the requested build
  covers: when an interval of the other build covers the position, \<open>process_variant\<close>
  returns the error that suggests the other build and lists the names of the overlapping
  intervals (the text before \<open>---\<close>, without repetition, sorted, joined by " and ");
  when no interval of either build covers it, it returns the outside-annotation error.
  In both cases it makes no call: no precomputed file is read and the model is not called.
\<close>

theorem outside_annotation:
  assumes "parse_variant variant = Inr (chrom, pos, ref, alt)"
    and "\<not> (1 < length ref \<and> 1 < length alt)"
    and "ANNOTATION_INTERVAL_TREES e genome_version = Some trees"
    and "OTHER_GENOME_VERSION genome_version = Some other_genome_version"
    and "ANNOTATION_INTERVAL_TREES e other_genome_version = Some other_trees"
    and "at (trees (remove_chr chrom)) pos = []"
  shows "process_variant e addr epoch_time variant genome_version d m p w
         = (Inr (error_dict variant
                  (if at (other_trees (remove_chr chrom)) pos \<noteq> []
                   then wrong_build_message genome_version other_genome_version chrom pos ref alt
                          (other_genome_genes (at (other_trees (remove_chr chrom)) pos))
                   else outside_annotation_message genome_version chrom pos ref alt)), w)
       \<and> new_calls w (snd (process_variant e addr epoch_time variant genome_version d m p w)) = []"
  using assms by (auto simp: process_variant_def new_calls_def Let_def)


theorem outside_annotation_witness:
  "process_variant example_env ''1.2.3.4'' ''1700000004.5'' ''2-500-A-G'' ''38'' 50 0 1 quiet_world
   = (Inr (error_dict ''2-500-A-G''
        (wrong_build_message ''38'' ''37'' ''2'' 500 ''A'' ''G'' ''GENE2'')), quiet_world)
   \<and> process_variant example_env ''1.2.3.4'' ''1700000004.5'' ''3-500-A-G'' ''38'' 50 0 1 quiet_world
   = (Inr (error_dict ''3-500-A-G''
        (outside_annotation_message ''38'' ''3'' 500 ''A'' ''G'')), quiet_world)"
proof -
  have p2: "parse_variant ''2-500-A-G'' = Inr (''2'', 500, ''A'', ''G'')"
    and p3: "parse_variant ''3-500-A-G'' = Inr (''3'', 500, ''A'', ''G'')"
    by code_simp+
  have simple: "\<not> (1 < length ''A'' \<and> 1 < length ''G'')" by simp
  have t: "ANNOTATION_INTERVAL_TREES example_env ''38'' = Some (annotation38 example_env)"
    "OTHER_GENOME_VERSION ''38'' = Some ''37''"
    "ANNOTATION_INTERVAL_TREES example_env ''37'' = Some (annotation37 example_env)"
    by (simp_all add: ANNOTATION_INTERVAL_TREES_def OTHER_GENOME_VERSION_def)
  have u2: "at (annotation38 example_env (remove_chr ''2'')) 500 = []"
    and u3: "at (annotation38 example_env (remove_chr ''3'')) 500 = []"
    by (simp_all add: example_env_def at_def)
  have o2: "at (annotation37 example_env ''2'') 500
            = [\<lparr>TX_START = 1, TX_END = 1000, NAME = ''GENE2---ENST2''\<rparr>]"
    and o3: "at (annotation37 example_env ''3'') 500 = []"
    by (simp_all add: example_env_def at_def)
  have g: "other_genome_genes [\<lparr>TX_START = 1, TX_END = 1000, NAME = ''GENE2---ENST2''\<rparr>] = ''GENE2''"
    by (simp add: other_genome_genes_def)
  show ?thesis
    using outside_annotation [OF p2 simple t u2, of "''1.2.3.4''" "''1700000004.5''" 50 0 1 quiet_world]
      outside_annotation [OF p3 simple t u3, of "''1.2.3.4''" "''1700000004.5''" 50 0 1 quiet_world]
    by (simp add: o2 o3 g)
qed

text \<open>
  C5 as the specification states it fails for a parsed variant that is a complex indel:
  at a position that neither build covers, the answer is the complex-indel error.
\<close>

theorem outside_annotation_counterexample:
  "parse_variant ''3-500-AC-GT'' = Inr (''3'', 500, ''AC'', ''GT'')
   \<and> at (annotation38 example_env (remove_chr ''3'')) 500 = []
   \<and> at (annotation37 example_env (remove_chr ''3'')) 500 = []
   \<and> process_variant example_env ''1.2.3.4'' ''1700000004.5'' ''3-500-AC-GT'' ''38'' 50 0 1 quiet_world
     = (Inr (error_dict ''3-500-AC-GT'' (complex_indel_message ''3'' 500 ''AC'' ''GT'')), quiet_world)
   \<and> complex_indel_message ''3'' 500 ''AC'' ''GT'' \<noteq> outside_annotation_message ''38'' ''3'' 500 ''AC'' ''GT''"
proof -
  have p: "parse_variant ''3-500-AC-GT'' = Inr (''3'', 500, ''AC'', ''GT'')"
    by code_simp
  have a: "at (annotation38 example_env (remove_chr ''3'')) 500 = []"
    "at (annotation37 example_env (remove_chr ''3'')) 500 = []"
    by (simp_all add: example_env_def at_def)
  have r: "process_variant example_env ''1.2.3.4'' ''1700000004.5'' ''3-500-AC-GT'' ''38'' 50 0 1 quiet_world
     = (Inr (error_dict ''3-500-AC-GT'' (complex_indel_message ''3'' 500 ''AC'' ''GT'')), quiet_world)"
    by (simp add: process_variant_def p)
  have n: "complex_indel_message ''3'' 500 ''AC'' ''GT'' \<noteq> outside_annotation_message ''38'' ''3'' 500 ''AC'' ''GT''"
    by (simp add: complex_indel_message_def outside_annotation_message_def)
  show ?thesis using p a r n by simp
qed







section \<open>The claims about the scoring endpoint\<close>

text \<open>
  C7. For every scoring request, a result is written to the cache exactly when the
  request was admitted, its parameters passed the checks, the cache gave no usable entry,
  and \<open>process_variant\<close> returned a dict without an \<open>error\<close> key (a score set). So a
  response with status 400 (an error of the parameters, of admission, of parsing, of the
  complex-indel or annotation check, or of the computation) is returned without any
  write of a result to the cache.
\<close>

theorem cache_store_iff_success:
  "((\<exists>c\<in>set (new_calls w (snd (run_spliceai e req epoch_total epoch_computed duration w))).
        is_cache_store c)
    \<longleftrightarrow> (\<exists>w1 variant genome_version d m p cached w2 results w3.
           exceeds_rate_limit epoch_total (remote_addr req) ''SpliceAI: total'' w = (Inr False, w1)
         \<and> spliceai_params (params req) = Inr (variant, genome_version, d, m, p)
         \<and> get_spliceai_from_redis variant genome_version d m p w1 = (cached, w2)
         \<and> (case cached of None \<Rightarrow> True | Some v \<Rightarrow> \<not> truthy v)
         \<and> process_variant e (remote_addr req) epoch_computed variant genome_version d m p w2
           = (Inr results, w3)
         \<and> map_of results ''error'' = None))
   \<and> (\<forall>resp. fst (run_spliceai e req epoch_total epoch_computed duration w) = Inr resp
              \<and> status resp = 400
          \<longrightarrow> \<not> (\<exists>c\<in>set (new_calls w (snd (run_spliceai e req epoch_total epoch_computed duration w))).
                    is_cache_store c))"
proof -
  obtain lim w1 where x: "exceeds_rate_limit epoch_total (remote_addr req) ''SpliceAI: total'' w = (lim, w1)"
    by (cases "exceeds_rate_limit epoch_total (remote_addr req) ''SpliceAI: total'' w") auto
  have "only_calls is_limiter_call w w1"
    using exceeds_rate_limit_calls [of w epoch_total "remote_addr req" "''SpliceAI: total''"] x by simp
  then obtain ls where ls: "calls w1 = calls w @ ls" "list_all is_limiter_call ls"
    unfolding only_calls_append by blast
  then have nls: "\<not> (\<exists>c\<in>set ls. is_cache_store c)"
    using limiter_not_store by (auto simp: list_all_iff)
  have early: ?thesis
    if stop: "snd (run_spliceai e req epoch_total epoch_computed duration w) = w1"
      and none: "\<not> (\<exists>variant genome_version d m p.
                     lim = Inr False \<and> spliceai_params (params req) = Inr (variant, genome_version, d, m, p))"
  proof -
    have "new_calls w (snd (run_spliceai e req epoch_total epoch_computed duration w)) = ls"
      using stop ls(1) by (simp add: new_calls_def)
    then show ?thesis using nls none x by auto
  qed
  show ?thesis
  proof (cases lim)
    case (Inl ex)
    then show ?thesis using early x by (simp add: run_spliceai_def)
  next
    case (Inr denied)
    show ?thesis
    proof (cases denied)
      case True
      then show ?thesis using early x Inr by (simp add: run_spliceai_def)
    next
      case False
      show ?thesis
      proof (cases "spliceai_params (params req)")
        case (Inl resp)
        then show ?thesis using early x Inr False by (simp add: run_spliceai_def)
      next
        case args: (Inr tuple)
        obtain variant genome_version d m p where t: "tuple = (variant, genome_version, d, m, p)"
          by (cases tuple) auto
        obtain cached w2 where g: "get_spliceai_from_redis variant genome_version d m p w1 = (cached, w2)"
          by (cases "get_spliceai_from_redis variant genome_version d m p w1") auto
        have run: "run_spliceai e req epoch_total epoch_computed duration w
                   = cached_or_processed e req epoch_computed duration variant genome_version d m p w1"
          using x Inr False args t by (simp add: run_spliceai_def)
        from cached_or_processed_trace [OF g, of e req epoch_computed duration]
        obtain xs where xs: "calls (snd (cached_or_processed e req epoch_computed duration variant
                          genome_version d m p w1)) = calls w1 @ xs"
          and st: "(\<exists>c\<in>set xs. is_cache_store c)
              \<longleftrightarrow> ((case cached of None \<Rightarrow> True | Some v \<Rightarrow> \<not> truthy v)
                   \<and> (\<exists>results w3. process_variant e (remote_addr req) epoch_computed variant
                                       genome_version d m p w2 = (Inr results, w3)
                                    \<and> map_of results ''error'' = None))"
          by blast
        have nc: "new_calls w (snd (run_spliceai e req epoch_total epoch_computed duration w)) = ls @ xs"
          using run xs ls(1) by (simp add: new_calls_def)
        have store: "(\<exists>c\<in>set (new_calls w (snd (run_spliceai e req epoch_total epoch_computed duration w))).
                         is_cache_store c)
                     \<longleftrightarrow> ((case cached of None \<Rightarrow> True | Some v \<Rightarrow> \<not> truthy v)
                   \<and> (\<exists>results w3. process_variant e (remote_addr req) epoch_computed variant
                                       genome_version d m p w2 = (Inr results, w3)
                                    \<and> map_of results ''error'' = None))"
          using nc nls st by auto
        have first: "(\<exists>c\<in>set (new_calls w (snd (run_spliceai e req epoch_total epoch_computed duration w))).
        is_cache_store c)
    \<longleftrightarrow> (\<exists>w1 variant genome_version d m p cached w2 results w3.
           exceeds_rate_limit epoch_total (remote_addr req) ''SpliceAI: total'' w = (Inr False, w1)
         \<and> spliceai_params (params req) = Inr (variant, genome_version, d, m, p)
         \<and> get_spliceai_from_redis variant genome_version d m p w1 = (cached, w2)
         \<and> (case cached of None \<Rightarrow> True | Some v \<Rightarrow> \<not> truthy v)
         \<and> process_variant e (remote_addr req) epoch_computed variant genome_version d m p w2
           = (Inr results, w3)
         \<and> map_of results ''error'' = None)"
          using store x Inr False args t g by auto
        have second: "\<not> (\<exists>c\<in>set (new_calls w (snd (run_spliceai e req epoch_total epoch_computed duration w))).
                    is_cache_store c)"
          if r: "fst (run_spliceai e req epoch_total epoch_computed duration w) = Inr resp"
            and s400: "status resp = 400" for resp
        proof
          assume "\<exists>c\<in>set (new_calls w (snd (run_spliceai e req epoch_total epoch_computed duration w))).
                    is_cache_store c"
          then obtain results w3 where miss: "case cached of None \<Rightarrow> True | Some v \<Rightarrow> \<not> truthy v"
            and pv: "process_variant e (remote_addr req) epoch_computed variant
                                       genome_version d m p w2 = (Inr results, w3)"
            and ok: "map_of results ''error'' = None"
            using store by blast
          have "fst (run_spliceai e req epoch_total epoch_computed duration w)
                = Inr (respond req duration results)"
            using run g miss pv by (simp add: cached_or_processed_def)
          then have "status resp = 200"
            using r ok by (simp add: respond_def)
          then show False using s400 by simp
        qed
        show ?thesis using first second by blast
      qed
    qed
  qed
qed

theorem cache_store_iff_success_witness:
  "fst (run_spliceai example_env
          \<lparr>remote_addr = ''1.2.3.4'', params = [(''hg'', ''38''), (''variant'', ''3-500-A-G'')]\<rparr>
          ''1700000004.5'' ''1700000004.6'' ''0:00:00.004'' quiet_world)
   = Inr \<lparr>body = JDict [(''hg'', JStr ''38''),
                          (''variant'', JStr ''3-500-A-G''),
                          (''error'', JStr (outside_annotation_message ''38'' ''3'' 500 ''A'' ''G'')),
                          (''duration'', JStr ''0:00:00.004'')],
          status = 400\<rparr>
   \<and> \<not> (\<exists>c\<in>set (new_calls quiet_world (snd (run_spliceai example_env
          \<lparr>remote_addr = ''1.2.3.4'', params = [(''hg'', ''38''), (''variant'', ''3-500-A-G'')]\<rparr>
          ''1700000004.5'' ''1700000004.6'' ''0:00:00.004'' quiet_world))). is_cache_store c)
   \<and> filter is_cache_store (new_calls quiet_world (snd (run_spliceai example_env
          \<lparr>remote_addr = ''1.2.3.4'', params = [(''hg'', ''38''), (''variant'', ''1-100-C-G'')]\<rparr>
          ''1700000004.5'' ''1700000004.6'' ''0:00:00.004'' quiet_world)))
     = [RedisSet ''1-100-C-G__hg38__d50__m0__pre1''
          (JDict [(''variant'', JStr ''1-100-C-G''),
                  (''genome_version'', JStr ''38''),
                  (''chrom'', JStr ''1''),
                  (''pos'', JInt 100),
                  (''ref'', JStr ''C''),
                  (''alt'', JStr ''G''),
                  (''scores'', JList [JStr ''GENE1|0.00|0.00|0.00|0.00|-1|-37|-48|-37'']),
                  (''source'', JStr ''lookup'')])]"
proof -
  have bad: "fst (run_spliceai example_env
          \<lparr>remote_addr = ''1.2.3.4'', params = [(''hg'', ''38''), (''variant'', ''3-500-A-G'')]\<rparr>
          ''1700000004.5'' ''1700000004.6'' ''0:00:00.004'' quiet_world)
   = Inr \<lparr>body = JDict [(''hg'', JStr ''38''),
                          (''variant'', JStr ''3-500-A-G''),
                          (''error'', JStr (outside_annotation_message ''38'' ''3'' 500 ''A'' ''G'')),
                          (''duration'', JStr ''0:00:00.004'')],
          status = 400\<rparr>"
    by code_simp
  have good: "filter is_cache_store (new_calls quiet_world (snd (run_spliceai example_env
          \<lparr>remote_addr = ''1.2.3.4'', params = [(''hg'', ''38''), (''variant'', ''1-100-C-G'')]\<rparr>
          ''1700000004.5'' ''1700000004.6'' ''0:00:00.004'' quiet_world)))
     = [RedisSet ''1-100-C-G__hg38__d50__m0__pre1''
          (JDict [(''variant'', JStr ''1-100-C-G''),
                  (''genome_version'', JStr ''38''),
                  (''chrom'', JStr ''1''),
                  (''pos'', JInt 100),
                  (''ref'', JStr ''C''),
                  (''alt'', JStr ''G''),
                  (''scores'', JList [JStr ''GENE1|0.00|0.00|0.00|0.00|-1|-37|-48|-37'']),
                  (''source'', JStr ''lookup'')])]"
    by code_simp
  have "\<not> (\<exists>c\<in>set (new_calls quiet_world (snd (run_spliceai example_env
          \<lparr>remote_addr = ''1.2.3.4'', params = [(''hg'', ''38''), (''variant'', ''3-500-A-G'')]\<rparr>
          ''1700000004.5'' ''1700000004.6'' ''0:00:00.004'' quiet_world))). is_cache_store c)"
    using cache_store_iff_success [of quiet_world example_env
        "\<lparr>remote_addr = ''1.2.3.4'', params = [(''hg'', ''38''), (''variant'', ''3-500-A-G'')]\<rparr>"
        "''1700000004.5''" "''1700000004.6''" "''0:00:00.004''"] bad
    by simp
  then show ?thesis using bad good by simp
qed



end
